theory Spec2Isabelle
  imports Complex_Main
begin

section \<open>Python values used by the pipeline\<close>

text \<open>
  A Python \<open>str\<close> is modelled as a \<open>string\<close>: one \<open>char\<close> stands for one character of
  the Python string, with code point below 256. The pipeline treats characters as opaque
  except in \<open>strip\<close>, \<open>lower\<close>, \<open>startswith\<close> and \<open>replace\<close>, which are written out below
  for that range. Output printed with \<open>print\<close> is not part of the model.
\<close>

definition isspace :: "char \<Rightarrow> bool" where
  "isspace c =
     (let n = (of_char c :: nat)
      in (9 \<le> n \<and> n \<le> 13) \<or> (28 \<le> n \<and> n \<le> 32) \<or> n = 133 \<or> n = 160)"

definition strip :: "string \<Rightarrow> string" where
  "strip s = rev (dropWhile isspace (rev (dropWhile isspace s)))"

definition lower_char :: "char \<Rightarrow> char" where
  "lower_char c =
     (let n = (of_char c :: nat)
      in if (65 \<le> n \<and> n \<le> 90) \<or> (192 \<le> n \<and> n \<le> 222 \<and> n \<noteq> 215)
         then char_of (n + 32) else c)"

definition lower :: "string \<Rightarrow> string" where
  "lower s = map lower_char s"

definition startswith :: "string \<Rightarrow> string \<Rightarrow> bool" where
  "startswith s p = (take (length p) s = p)"

text \<open>
  \<open>s.replace(old, "")\<close> for a non-empty \<open>old\<close>: every non-overlapping occurrence, found
  from the left, is dropped. The counter \<open>k\<close> is the number of characters of a match still
  to be skipped.
\<close>

fun remove_from :: "string \<Rightarrow> nat \<Rightarrow> string \<Rightarrow> string" where
  "remove_from old k [] = []"
| "remove_from old k (c # cs) =
     (if 0 < k then remove_from old (k - 1) cs
      else if startswith (c # cs) old then remove_from old (length old - 1) cs
      else c # remove_from old 0 cs)"

definition replace_empty :: "string \<Rightarrow> string \<Rightarrow> string" where
  "replace_empty s old = remove_from old 0 s"

text \<open>\<open>sep.join(xs)\<close>.\<close>

fun join :: "string \<Rightarrow> string list \<Rightarrow> string" where
  "join sep [] = []"
| "join sep [x] = x"
| "join sep (x # y # ys) = x @ sep @ join sep (y # ys)"

text \<open>Decimal rendering of integers, as \<open>str\<close> gives it.\<close>

fun str_nat :: "nat \<Rightarrow> string" where
  "str_nat n =
     (if n < 10 then [char_of (48 + n)] else str_nat (n div 10) @ [char_of (48 + n mod 10)])"

definition str_int :: "int \<Rightarrow> string" where
  "str_int i = (if i < 0 then CHR ''-'' # str_nat (nat (- i)) else str_nat (nat i))"

text \<open>
  The objects \<open>json.loads\<close> and \<open>response.json()\<close> return. A float is carried as its
  \<open>repr\<close>: the pipeline formats floats of a response and never computes with them. A
  \<open>dict\<close> is an association list in insertion order; its keys are distinct.
\<close>

datatype json =
    JNull
  | JBool bool
  | JInt int
  | JFloat string
  | JStr string
  | JArr "json list"
  | JObj "(string \<times> json) list"

text \<open>
  \<open>repr\<close> of a string: double quotes when the string holds a single quote and no double
  quote, single quotes otherwise; the quote, the backslash and every unprintable
  character escaped.
\<close>

definition hex_digit :: "nat \<Rightarrow> char" where
  "hex_digit n = (if n < 10 then char_of (48 + n) else char_of (87 + n))"

definition printable :: "char \<Rightarrow> bool" where
  "printable c =
     (let n = (of_char c :: nat) in (32 \<le> n \<and> n \<le> 126) \<or> (161 \<le> n \<and> n \<noteq> 173))"

definition repr_char :: "char \<Rightarrow> char \<Rightarrow> string" where
  "repr_char q c =
     (if c = q \<or> c = CHR 0x5C then [CHR 0x5C, c]
      else if c = CHR 0x09 then [CHR 0x5C, CHR ''t'']
      else if c = CHR 0x0A then [CHR 0x5C, CHR ''n'']
      else if c = CHR 0x0D then [CHR 0x5C, CHR ''r'']
      else if printable c then [c]
      else [CHR 0x5C, CHR ''x'', hex_digit (of_char c div 16), hex_digit (of_char c mod 16)])"

definition repr_str :: "string \<Rightarrow> string" where
  "repr_str s =
     (let q = (if CHR 0x27 \<in> set s \<and> CHR 0x22 \<notin> set s then CHR 0x22 else CHR 0x27)
      in q # concat (map (repr_char q) s) @ [q])"

primrec repr :: "json \<Rightarrow> string" where
  "repr JNull = ''None''"
| "repr (JBool b) = (if b then ''True'' else ''False'')"
| "repr (JInt i) = str_int i"
| "repr (JFloat r) = r"
| "repr (JStr s) = repr_str s"
| "repr (JArr xs) = ''['' @ join '', '' (map repr xs) @ '']''"
| "repr (JObj kvs) =
     ''{'' @ join '', '' (map (\<lambda>kv. repr_str (fst kv) @ '': '' @ snd kv) (map (map_prod id repr) kvs))
       @ ''}''"

text \<open>\<open>str(v)\<close>, which an f-string applies to each value it formats.\<close>

definition str :: "json \<Rightarrow> string" where
  "str v = (case v of JStr s \<Rightarrow> s | _ \<Rightarrow> repr v)"

subsection \<open>Exceptions\<close>

text \<open>
  Every handler of the pipeline is \<open>except Exception as e\<close> and reads only \<open>str(e)\<close>.
  \<open>Raised m\<close> is an exception raised by an external capability with \<open>str(e) = m\<close>;
  the other constructors are the exceptions the pipeline's own expressions raise.
\<close>

datatype exn =
    KeyError json
  | IndexError string
  | TypeError string
  | Raised string

fun exn_str :: "exn \<Rightarrow> string" where
  "exn_str (KeyError k) = repr k"
| "exn_str (IndexError m) = m"
| "exn_str (TypeError m) = m"
| "exn_str (Raised m) = m"

text \<open>\<open>v[k]\<close> for a string key \<open>k\<close>, and \<open>v[0]\<close>.\<close>

definition quoted :: "string \<Rightarrow> string" where
  "quoted s = CHR 0x27 # s @ [CHR 0x27]"

definition not_subscriptable :: "string \<Rightarrow> exn" where
  "not_subscriptable tname = TypeError (quoted tname @ '' object is not subscriptable'')"

fun getitem :: "json \<Rightarrow> string \<Rightarrow> exn + json" where
  "getitem (JObj kvs) k = (case map_of kvs k of Some v \<Rightarrow> Inr v | None \<Rightarrow> Inl (KeyError (JStr k)))"
| "getitem (JArr xs) k = Inl (TypeError ''list indices must be integers or slices, not str'')"
| "getitem (JStr s) k = Inl (TypeError (''string indices must be integers, not '' @ quoted ''str''))"
| "getitem JNull k = Inl (not_subscriptable ''NoneType'')"
| "getitem (JBool b) k = Inl (not_subscriptable ''bool'')"
| "getitem (JInt i) k = Inl (not_subscriptable ''int'')"
| "getitem (JFloat r) k = Inl (not_subscriptable ''float'')"

fun getitem0 :: "json \<Rightarrow> exn + json" where
  "getitem0 (JArr xs) = (case xs of [] \<Rightarrow> Inl (IndexError ''list index out of range'') | x # _ \<Rightarrow> Inr x)"
| "getitem0 (JObj kvs) = Inl (KeyError (JInt 0))"
| "getitem0 (JStr s) = (case s of [] \<Rightarrow> Inl (IndexError ''string index out of range'') | c # _ \<Rightarrow> Inr (JStr [c]))"
| "getitem0 JNull = Inl (not_subscriptable ''NoneType'')"
| "getitem0 (JBool b) = Inl (not_subscriptable ''bool'')"
| "getitem0 (JInt i) = Inl (not_subscriptable ''int'')"
| "getitem0 (JFloat r) = Inl (not_subscriptable ''float'')"

text \<open>Sequencing of steps that may raise: the first exception ends the block.\<close>

definition bind :: "exn + 'a \<Rightarrow> ('a \<Rightarrow> exn + 'b) \<Rightarrow> exn + 'b" where
  "bind m f = (case m of Inl e \<Rightarrow> Inl e | Inr x \<Rightarrow> f x)"

section \<open>The state record and the external capabilities\<close>

text \<open>
  \<open>GraphState\<close> of \<open>nodes.py\<close>. A node returns a dictionary of the fields it sets and
  the graph merges it into the state; here a node returns the merged state.
\<close>

record GraphState =
  question :: string
  route :: string
  "context" :: string
  weather_data :: json
  retrieved_docs :: "string list"
  rerank_scores :: "real list"
  generation :: string
  evaluation :: json

text \<open>
  What \<open>requests.get\<close> returns: \<open>raise_for_status\<close> is the exception that call raises
  (\<open>None\<close> when it returns), \<open>json_body\<close> the outcome of \<open>response.json()\<close>.
\<close>

record response =
  raise_for_status :: "exn option"
  json_body :: "exn + json"

text \<open>One entry of \<open>rerank_response.results\<close>: \<open>result.document.text\<close> and its score.\<close>

record rerank_result =
  document_text :: string
  relevance_score :: real

text \<open>
  The capabilities the pipeline calls and does not implement: the construction of a
  chain \<open>prompt | get_llm() | StrOutputParser()\<close> for the prompt with the given system
  message (\<open>None\<close> when the chain is built, the exception raised otherwise), the call
  \<open>chain.invoke\<close> of a built chain (given the system message and the human message),
  the HTTP client, the vector store with its retriever (given \<open>k\<close> and the query,
  returning the \<open>page_content\<close> of each hit), the reranking client (query, documents,
  \<open>top_n\<close>), and \<open>json.loads\<close>. Each returns its value or the exception it raises, and
  is a function of the arguments of the call.
\<close>

record env =
  build_chain :: "string \<Rightarrow> exn option"
  llm_invoke :: "string \<Rightarrow> string \<Rightarrow> exn + string"
  requests_get :: "string \<Rightarrow> (string \<times> string) list \<Rightarrow> exn + response"
  get_vector_store :: "exn option"
  retriever_invoke :: "nat \<Rightarrow> string \<Rightarrow> exn + string list"
  co_rerank :: "string \<Rightarrow> string list \<Rightarrow> nat \<Rightarrow> exn + rerank_result list"
  json_loads :: "string \<Rightarrow> exn + json"
  OPENWEATHER_API_KEY :: string

text \<open>A chain built and then invoked, as the router, weather and generation nodes do.\<close>

definition chain_call :: "env \<Rightarrow> string \<Rightarrow> string \<Rightarrow> exn + string" where
  "chain_call env system human =
     (case build_chain env system of
        Some e \<Rightarrow> Inl e
      | None \<Rightarrow> llm_invoke env system human)"

definition OPENWEATHER_BASE_URL :: string where
  "OPENWEATHER_BASE_URL = ''http://api.openweathermap.org/data/2.5/weather''"

definition RETRIEVAL_TOP_K :: nat where
  "RETRIEVAL_TOP_K = 10"

definition RERANK_TOP_N :: nat where
  "RERANK_TOP_N = 3"

section \<open>The nodes\<close>

subsection \<open>\<open>router_node\<close>\<close>

definition router_system :: string where
  "router_system =
     ''You are a routing assistant. Analyze the user's question and determine if it's about:\<newline>''
     @ ''        1. WEATHER: Questions about weather, temperature, climate, forecast for a location\<newline>''
     @ ''        2. PDF: Questions about document content, information retrieval from documents\<newline>''
     @ ''        \<newline>''
     @ ''        Respond with ONLY one word: '' @ quoted ''weather'' @ '' or '' @ quoted ''pdf''"

definition router_node :: "env \<Rightarrow> GraphState \<Rightarrow> exn + GraphState" where
  "router_node env state =
     bind (chain_call env router_system (question state))
       (\<lambda>out. Inr (state\<lparr>route := lower (strip out)\<rparr>))"

subsection \<open>\<open>weather_node\<close>\<close>

definition location_system :: string where
  "location_system =
     ''Extract ONLY the city name from the user's question. Return only the city name, nothing else.''"

text \<open>
  The f-string of the \<open>try\<close> block. Its fields are evaluated from left to right and the
  first lookup that raises ends it.
\<close>

definition weather_context :: "json \<Rightarrow> exn + string" where
  "weather_context wd =
     bind (getitem wd ''name'') (\<lambda>name.
     bind (bind (getitem wd ''sys'') (\<lambda>s. getitem s ''country'')) (\<lambda>country.
     bind (bind (getitem wd ''main'') (\<lambda>m. getitem m ''temp'')) (\<lambda>temp.
     bind (bind (getitem wd ''main'') (\<lambda>m. getitem m ''feels_like'')) (\<lambda>feels_like.
     bind (bind (getitem wd ''main'') (\<lambda>m. getitem m ''humidity'')) (\<lambda>humidity.
     bind (bind (bind (getitem wd ''weather'') getitem0) (\<lambda>w. getitem w ''description''))
       (\<lambda>description.
     bind (bind (getitem wd ''wind'') (\<lambda>w. getitem w ''speed'')) (\<lambda>speed.
       Inr (''\<newline>        Location: '' @ str name @ '', '' @ str country
          @ ''\<newline>        Temperature: '' @ str temp @ [CHR 0xB0, CHR ''C'']
          @ ''\<newline>        Feels Like: '' @ str feels_like @ [CHR 0xB0, CHR ''C'']
          @ ''\<newline>        Humidity: '' @ str humidity @ ''%''
          @ ''\<newline>        Weather: '' @ str description
          @ ''\<newline>        Wind Speed: '' @ str speed @ '' m/s''
          @ ''\<newline>        ''))))))))"

definition weather_try :: "env \<Rightarrow> string \<Rightarrow> exn + (json \<times> string)" where
  "weather_try env city =
     bind (requests_get env OPENWEATHER_BASE_URL
             [(''q'', city), (''appid'', OPENWEATHER_API_KEY env), (''units'', ''metric'')])
       (\<lambda>response.
          case raise_for_status response of
            Some e \<Rightarrow> Inl e
          | None \<Rightarrow>
              bind (json_body response) (\<lambda>wd.
              bind (weather_context wd) (\<lambda>c. Inr (wd, c))))"

definition weather_node :: "env \<Rightarrow> GraphState \<Rightarrow> exn + GraphState" where
  "weather_node env state =
     bind (chain_call env location_system (question state))
       (\<lambda>out.
          let city = strip out in
          case weather_try env city of
            Inr (wd, c) \<Rightarrow> Inr (state\<lparr>weather_data := wd, context := c\<rparr>)
          | Inl e \<Rightarrow>
              Inr (state\<lparr>weather_data := JObj [],
                         context := ''Error fetching weather data: '' @ exn_str e\<rparr>))"

subsection \<open>\<open>rag_retrieval_node\<close>\<close>

text \<open>The calls the node makes to the retriever and to the reranking client, in order.\<close>

datatype call =
    Retriever_invoke nat string
  | Co_rerank string "string list" nat

text \<open>The loop over \<open>rerank_response.results\<close>, appending to both lists.\<close>

fun extract_results ::
  "rerank_result list \<Rightarrow> string list \<Rightarrow> real list \<Rightarrow> string list \<times> real list" where
  "extract_results [] retrieved_texts scores = (retrieved_texts, scores)"
| "extract_results (result # results) retrieved_texts scores =
     extract_results results (retrieved_texts @ [document_text result])
       (scores @ [relevance_score result])"

text \<open>
  The \<open>try\<close> block: the calls made, and the three fields it computes or the exception
  that ended it.
\<close>

definition rag_retrieval_try ::
  "env \<Rightarrow> string \<Rightarrow> call list \<times> (exn + (string list \<times> string \<times> real list))" where
  "rag_retrieval_try env q =
     (case get_vector_store env of
        Some e \<Rightarrow> ([], Inl e)
      | None \<Rightarrow>
          (case retriever_invoke env RETRIEVAL_TOP_K q of
             Inl e \<Rightarrow> ([Retriever_invoke RETRIEVAL_TOP_K q], Inl e)
           | Inr documents \<Rightarrow>
               (case co_rerank env q documents RERANK_TOP_N of
                  Inl e \<Rightarrow>
                    ([Retriever_invoke RETRIEVAL_TOP_K q, Co_rerank q documents RERANK_TOP_N],
                     Inl e)
                | Inr results \<Rightarrow>
                    (let (retrieved_texts, scores) = extract_results results [] []
                     in ([Retriever_invoke RETRIEVAL_TOP_K q,
                          Co_rerank q documents RERANK_TOP_N],
                         Inr (retrieved_texts, join ''\<newline>\<newline>'' retrieved_texts, scores))))))"


definition rag_retrieval_node :: "env \<Rightarrow> GraphState \<Rightarrow> exn + GraphState" where
  "rag_retrieval_node env state =
     (case snd (rag_retrieval_try env (question state)) of
        Inr (retrieved_texts, c, scores) \<Rightarrow>
          Inr (state\<lparr>retrieved_docs := retrieved_texts, context := c, rerank_scores := scores\<rparr>)
      | Inl e \<Rightarrow>
          Inr (state\<lparr>retrieved_docs := [],
                     context := ''Error retrieving documents: '' @ exn_str e,
                     rerank_scores := []\<rparr>))"

subsection \<open>\<open>generation_node\<close>\<close>

definition weather_system :: string where
  "weather_system =
     ''You are a helpful weather assistant. Use the provided weather data to answer the user's question naturally and conversationally.''"

definition pdf_system :: string where
  "pdf_system =
     ''You are a helpful assistant. Use the provided document context to answer the user's question. \<newline>''
     @ ''            If the answer is not in the context, say so. Be concise and accurate.''"

text \<open>The prompt chosen by the route, filled in: its system and its human message.\<close>

definition generation_prompt :: "GraphState \<Rightarrow> string \<times> string" where
  "generation_prompt state =
     (if route state = ''weather''
      then (weather_system,
            ''Weather Data:\<newline>'' @ context state @ ''\<newline>\<newline>Question: '' @ question state
            @ ''\<newline>\<newline>Answer:'')
      else (pdf_system,
            ''Context:\<newline>'' @ context state @ ''\<newline>\<newline>Question: '' @ question state
            @ ''\<newline>\<newline>Answer:''))"

definition generation_node :: "env \<Rightarrow> GraphState \<Rightarrow> exn + GraphState" where
  "generation_node env state =
     bind (chain_call env (fst (generation_prompt state)) (snd (generation_prompt state)))
       (\<lambda>g. Inr (state\<lparr>generation := g\<rparr>))"

subsection \<open>\<open>evaluation_node\<close>\<close>

definition dquoted :: "string \<Rightarrow> string" where
  "dquoted s = CHR 0x22 # s @ [CHR 0x22]"

definition eval_system :: string where
  "eval_system =
     ''Evaluate the response on a scale of 1-10 for:\<newline>''
     @ ''        1. Relevance: Does it answer the question?\<newline>''
     @ ''        2. Accuracy: Is the information correct based on context?\<newline>''
     @ ''        3. Completeness: Is the answer complete?\<newline>''
     @ ''        \<newline>''
     @ ''        You MUST respond with ONLY valid JSON in this exact format, no other text: \<newline>''
     @ ''        {'' @ dquoted ''relevance'' @ '': X, '' @ dquoted ''accuracy'' @ '': Y, ''
     @ dquoted ''completeness'' @ '': Z}''"

definition fence :: string where
  "fence = [CHR 0x60, CHR 0x60, CHR 0x60]"

text \<open>The cleaning of the model's reply before it is parsed.\<close>

definition clean_eval_result :: "string \<Rightarrow> string" where
  "clean_eval_result raw =
     (let eval_result = strip raw in
      if startswith eval_result (fence @ ''json'')
      then replace_empty (replace_empty eval_result (fence @ ''json'')) fence
      else if startswith eval_result fence
      then replace_empty eval_result fence
      else eval_result)"

definition evaluation_human :: "GraphState \<Rightarrow> string" where
  "evaluation_human state =
     ''Question: '' @ question state @ ''\<newline>\<newline>Context: '' @ context state
     @ ''\<newline>\<newline>Response: '' @ generation state"

text \<open>The \<open>try\<close> block: the built chain is invoked and its cleaned reply parsed.\<close>

definition evaluation_try :: "env \<Rightarrow> GraphState \<Rightarrow> exn + json" where
  "evaluation_try env state =
     bind (llm_invoke env eval_system (evaluation_human state))
       (\<lambda>eval_result. json_loads env (clean_eval_result eval_result))"

text \<open>
  The node builds its chain before the \<open>try\<close> block: an exception of the construction
  leaves the node, an exception of the block is caught.
\<close>

definition evaluation_node :: "env \<Rightarrow> GraphState \<Rightarrow> exn + GraphState" where
  "evaluation_node env state =
     (case build_chain env eval_system of
        Some e \<Rightarrow> Inl e
      | None \<Rightarrow>
          (case evaluation_try env state of
             Inr ev \<Rightarrow> Inr (state\<lparr>evaluation := ev\<rparr>)
           | Inl e \<Rightarrow> Inr (state\<lparr>evaluation := JObj [(''error'', JStr (exn_str e))]\<rparr>)))"

section \<open>The graph\<close>

datatype node = Router | Weather | Rag_retrieval | Generation | Evaluation | END

definition route_question :: "GraphState \<Rightarrow> string" where
  "route_question state = (if route state = ''weather'' then ''weather'' else ''pdf'')"

text \<open>The mapping given to \<open>add_conditional_edges\<close>.\<close>

definition router_edges :: "(string \<times> node) list" where
  "router_edges = [(''weather'', Weather), (''pdf'', Rag_retrieval)]"

text \<open>The node that follows \<open>n\<close>; a label outside the mapping is an error of the run.\<close>

fun next_node :: "node \<Rightarrow> GraphState \<Rightarrow> exn + node" where
  "next_node Router state =
     (case map_of router_edges (route_question state) of
        Some n \<Rightarrow> Inr n
      | None \<Rightarrow> Inl (KeyError (JStr (route_question state))))"
| "next_node Weather state = Inr Generation"
| "next_node Rag_retrieval state = Inr Generation"
| "next_node Generation state = Inr Evaluation"
| "next_node Evaluation state = Inr END"
| "next_node END state = Inr END"

fun run_node :: "env \<Rightarrow> node \<Rightarrow> GraphState \<Rightarrow> exn + GraphState" where
  "run_node env Router state = router_node env state"
| "run_node env Weather state = weather_node env state"
| "run_node env Rag_retrieval state = rag_retrieval_node env state"
| "run_node env Generation state = generation_node env state"
| "run_node env Evaluation state = evaluation_node env state"
| "run_node env END state = Inr state"

text \<open>
  A run from node \<open>n\<close>: the node runs, its edge is followed, until \<open>END\<close>. The graph
  library stops a run after \<open>recursion_limit\<close> steps with an error.
\<close>

definition recursion_limit :: nat where
  "recursion_limit = 25"

fun run_from :: "nat \<Rightarrow> env \<Rightarrow> node \<Rightarrow> GraphState \<Rightarrow> exn + GraphState" where
  "run_from fuel env END state = Inr state"
| "run_from 0 env n state = Inl (Raised ''Recursion limit reached'')"
| "run_from (Suc fuel) env n state =
     bind (run_node env n state) (\<lambda>state'.
     bind (next_node n state') (\<lambda>n'. run_from fuel env n' state'))"

definition graph_invoke :: "env \<Rightarrow> GraphState \<Rightarrow> exn + GraphState" where
  "graph_invoke env state = run_from recursion_limit env Router state"

text \<open>\<open>process_query_async\<close> of \<open>main.py\<close>: a run from the initial state of a question.\<close>

definition initial_state :: "string \<Rightarrow> GraphState" where
  "initial_state q =
     \<lparr>question = q, route = [], context = [], weather_data = JObj [], retrieved_docs = [],
      rerank_scores = [], generation = [], evaluation = JObj []\<rparr>"

definition process_query_async :: "env \<Rightarrow> string \<Rightarrow> exn + GraphState" where
  "process_query_async env q = graph_invoke env (initial_state q)"

section \<open>The batch endpoint\<close>

text \<open>
  \<open>QueryResponse\<close> of \<open>main.py\<close>. Its constructor validates the arguments against the
  declared field types: a field declared \<open>Optional[Dict]\<close> takes a dictionary or \<open>None\<close>
  and refuses every other value with a validation error naming the field. The fields
  declared \<open>str\<close>, \<open>List[str]\<close> and \<open>List[float]\<close> receive values of these types from the
  state.
\<close>

record QueryResponse =
  resp_question :: string
  answer :: string
  resp_route :: string
  resp_context :: string
  resp_weather_data :: "(string \<times> json) list option"
  resp_retrieved_docs :: "string list option"
  resp_rerank_scores :: "real list option"
  resp_evaluation :: "(string \<times> json) list option"

datatype validation_error = ValidationError "string list"

fun optional_dict :: "json \<Rightarrow> (string \<times> json) list option option" where
  "optional_dict JNull = Some None"
| "optional_dict (JObj kvs) = Some (Some kvs)"
| "optional_dict v = None"

text \<open>The response built for a question whose run raised \<open>e\<close>.\<close>

definition error_response :: "string \<Rightarrow> exn \<Rightarrow> QueryResponse" where
  "error_response q e =
     \<lparr>resp_question = q, answer = ''Error: '' @ exn_str e, resp_route = ''error'',
      resp_context = [], resp_weather_data = None, resp_retrieved_docs = None,
      resp_rerank_scores = None, resp_evaluation = None\<rparr>"

text \<open>The response built from the final state of a run that returned.\<close>

definition result_response :: "string \<Rightarrow> GraphState \<Rightarrow> validation_error + QueryResponse" where
  "result_response q result =
     (case (optional_dict (weather_data result), optional_dict (evaluation result)) of
        (Some wd, Some ev) \<Rightarrow>
          Inr \<lparr>resp_question = q, answer = generation result, resp_route = route result,
               resp_context = context result, resp_weather_data = wd,
               resp_retrieved_docs = Some (retrieved_docs result),
               resp_rerank_scores = Some (rerank_scores result), resp_evaluation = ev\<rparr>
      | (None, Some ev) \<Rightarrow> Inl (ValidationError [''weather_data''])
      | (Some wd, None) \<Rightarrow> Inl (ValidationError [''evaluation''])
      | (None, None) \<Rightarrow> Inl (ValidationError [''weather_data'', ''evaluation'']))"

text \<open>
  The loop over \<open>zip(request.questions, results)\<close>. A constructor that raises ends
  the loop and the request, since the loop stands in no \<open>try\<close> block.
\<close>

fun build_responses ::
  "(string \<times> (exn + GraphState)) list \<Rightarrow> QueryResponse list \<Rightarrow> validation_error + QueryResponse list"
  where
  "build_responses [] responses = Inr responses"
| "build_responses ((q, Inl e) # rest) responses =
     build_responses rest (responses @ [error_response q e])"
| "build_responses ((q, Inr result) # rest) responses =
     (case result_response q result of
        Inl v \<Rightarrow> Inl v
      | Inr r \<Rightarrow> build_responses rest (responses @ [r]))"

text \<open>
  \<open>batch_query\<close>: \<open>asyncio.gather\<close> with \<open>return_exceptions=True\<close> gives, for each
  question in order, the final state of its run or the exception the run raised. The
  elapsed time reported beside the results is not modelled.
\<close>

definition batch_query :: "env \<Rightarrow> string list \<Rightarrow> validation_error + QueryResponse list" where
  "batch_query env questions =
     build_responses (zip questions (map (process_query_async env) questions)) []"

section \<open>Test doubles\<close>

text \<open>
  Environments, replies and states on which the definitions are run: an environment
  whose chat model is the given function and whose other capabilities fail, a chat model
  built from a table of replies per system message, and doubles of the vector store,
  the weather service and the parser in the manner of the repository's tests.
\<close>

definition offline :: "(string \<Rightarrow> string \<Rightarrow> exn + string) \<Rightarrow> env" where
  "offline llm =
     \<lparr>build_chain = (\<lambda>system. None),
      llm_invoke = llm,
      requests_get = (\<lambda>url params. Inl (Raised ''connection refused'')),
      get_vector_store = Some (Raised ''connection refused''),
      retriever_invoke = (\<lambda>k q. Inl (Raised ''connection refused'')),
      co_rerank = (\<lambda>q docs n. Inl (Raised ''connection refused'')),
      json_loads = (\<lambda>s. Inl (Raised ''Expecting value: line 1 column 1 (char 0)'')),
      OPENWEATHER_API_KEY = ''key''\<rparr>"

definition replies :: "(string \<times> (exn + string)) list \<Rightarrow> string \<Rightarrow> string \<Rightarrow> exn + string" where
  "replies table system human =
     (case map_of table system of Some r \<Rightarrow> r | None \<Rightarrow> Inl (Raised ''no reply''))"

definition mock_store :: "string list \<Rightarrow> (exn + rerank_result list) \<Rightarrow> env" where
  "mock_store documents reranked =
     \<lparr>build_chain = (\<lambda>system. None),
      llm_invoke = (\<lambda>system human. Inl (Raised ''no reply'')),
      requests_get = (\<lambda>url params. Inl (Raised ''connection refused'')),
      get_vector_store = None,
      retriever_invoke = (\<lambda>k q. Inr (take k documents)),
      co_rerank = (\<lambda>q docs n. reranked),
      json_loads = (\<lambda>s. Inl (Raised ''Expecting value: line 1 column 1 (char 0)'')),
      OPENWEATHER_API_KEY = ''key''\<rparr>"

definition ten_documents :: "string list" where
  "ten_documents =
     [''passage 0'', ''passage 1'', ''passage 2'', ''passage 3'', ''passage 4'',
      ''passage 5'', ''passage 6'', ''passage 7'', ''passage 8'', ''passage 9'']"

definition three_results :: "rerank_result list" where
  "three_results =
     [\<lparr>document_text = ''passage 4'', relevance_score = 0.95\<rparr>,
      \<lparr>document_text = ''passage 0'', relevance_score = 0.89\<rparr>,
      \<lparr>document_text = ''passage 7'', relevance_score = 0.82\<rparr>]"

definition four_results :: "rerank_result list" where
  "four_results =
     [\<lparr>document_text = ''passage 0'', relevance_score = 0.95\<rparr>,
      \<lparr>document_text = ''passage 1'', relevance_score = 0.89\<rparr>,
      \<lparr>document_text = ''passage 2'', relevance_score = 0.82\<rparr>,
      \<lparr>document_text = ''passage 3'', relevance_score = 0.75\<rparr>]"

definition london :: json where
  "london =
     JObj [(''name'', JStr ''London''),
           (''sys'', JObj [(''country'', JStr ''GB'')]),
           (''main'', JObj [(''temp'', JInt 15), (''feels_like'', JInt 13), (''humidity'', JInt 80)]),
           (''weather'', JArr [JObj [(''description'', JStr ''cloudy'')]]),
           (''wind'', JObj [(''speed'', JFloat ''8.5'')])]"

definition mock_weather :: "(string \<Rightarrow> string \<Rightarrow> exn + string) \<Rightarrow> (exn + response) \<Rightarrow> env" where
  "mock_weather llm fetched =
     \<lparr>build_chain = (\<lambda>system. None),
      llm_invoke = llm,
      requests_get = (\<lambda>url params. fetched),
      get_vector_store = Some (Raised ''connection refused''),
      retriever_invoke = (\<lambda>k q. Inl (Raised ''connection refused'')),
      co_rerank = (\<lambda>q docs n. Inl (Raised ''connection refused'')),
      json_loads = (\<lambda>s. Inl (Raised ''Expecting value: line 1 column 1 (char 0)'')),
      OPENWEATHER_API_KEY = ''key''\<rparr>"

definition degraded_llm :: "string \<Rightarrow> string \<Rightarrow> exn + string" where
  "degraded_llm =
     replies [(router_system, Inr ''weather''), (location_system, Inr ''Atlantis''),
              (weather_system, Inr ''I could not fetch the weather for Atlantis.''),
              (eval_system, Inr ''not json'')]"

definition three_scores_text :: string where
  "three_scores_text =
     ''{'' @ dquoted ''relevance'' @ '':8,'' @ dquoted ''accuracy'' @ '':9,''
     @ dquoted ''completeness'' @ '':7}''"

definition padded_scores_text :: string where
  "padded_scores_text = ''\<newline>'' @ three_scores_text @ ''\<newline>''"

definition fenced_reply :: string where
  "fenced_reply = fence @ ''json'' @ padded_scores_text @ fence"

definition three_scores :: json where
  "three_scores = JObj [(''relevance'', JInt 8), (''accuracy'', JInt 9), (''completeness'', JInt 7)]"

definition mock_json :: "(string \<Rightarrow> string \<Rightarrow> exn + string) \<Rightarrow> (string \<times> json) list \<Rightarrow> env" where
  "mock_json llm table =
     \<lparr>build_chain = (\<lambda>system. None),
      llm_invoke = llm,
      requests_get = (\<lambda>url params. Inl (Raised ''connection refused'')),
      get_vector_store = Some (Raised ''connection refused''),
      retriever_invoke = (\<lambda>k q. Inl (Raised ''connection refused'')),
      co_rerank = (\<lambda>q docs n. Inl (Raised ''connection refused'')),
      json_loads =
        (\<lambda>s. case map_of table s of
                Some v \<Rightarrow> Inr v
              | None \<Rightarrow> Inl (Raised ''Expecting value: line 1 column 1 (char 0)'')),
      OPENWEATHER_API_KEY = ''key''\<rparr>"

definition answered :: GraphState where
  "answered =
     \<lparr>question = ''Who wrote Wings of Fire?'', route = ''pdf'',
      context = ''Wings of Fire is the autobiography of A. P. J. Abdul Kalam.'',
      weather_data = JObj [], retrieved_docs = [], rerank_scores = [],
      generation = ''A. P. J. Abdul Kalam.'', evaluation = JObj []\<rparr>"

definition padded_reply :: string where
  "padded_reply = '' \<newline>'' @ fenced_reply @ ''\<newline>  ''"

definition one_score_text :: string where
  "one_score_text = ''{'' @ dquoted ''relevance'' @ '': 8}''"

definition rubric_env :: "string \<Rightarrow> env" where
  "rubric_env reply =
     mock_json (\<lambda>system human. Inr reply)
       [(padded_scores_text, three_scores), (three_scores_text, three_scores),
        (''[8, 9, 7]'', JArr [JInt 8, JInt 9, JInt 7]),
        (one_score_text, JObj [(''relevance'', JInt 8)])]"

definition eval_down_llm :: "string \<Rightarrow> string \<Rightarrow> exn + string" where
  "eval_down_llm system human =
     (if system = eval_system then Inl (Raised ''Request timed out.'')
      else if system = router_system then Inr ''pdf''
      else Inr ''I do not have enough information.'')"

definition location_down_llm :: "string \<Rightarrow> string \<Rightarrow> exn + string" where
  "location_down_llm system human =
     (if system = location_system then Inl (Raised ''Request timed out.'')
      else if system = router_system then Inr ''weather''
      else Inr ''It is sunny.'')"

definition list_rubric_llm :: "string \<Rightarrow> string \<Rightarrow> exn + string" where
  "list_rubric_llm system human =
     (if system = router_system then Inr ''pdf''
      else if system = eval_system
      then (if startswith human ''Question: When'' then Inr ''[8, 9, 7]''
            else Inr three_scores_text)
      else Inr ''I do not have enough information.'')"

definition list_rubric_env :: env where
  "list_rubric_env =
     mock_json list_rubric_llm
       [(three_scores_text, three_scores), (''[8, 9, 7]'', JArr [JInt 8, JInt 9, JInt 7])]"

definition degraded_run :: "string \<Rightarrow> json \<Rightarrow> GraphState" where
  "degraded_run q ev =
     \<lparr>question = q, route = ''pdf'',
      context = ''Error retrieving documents: connection refused'',
      weather_data = JObj [], retrieved_docs = [], rerank_scores = [],
      generation = ''I do not have enough information.'', evaluation = ev\<rparr>"

definition generation_down_llm :: "string \<Rightarrow> string \<Rightarrow> exn + string" where
  "generation_down_llm system human =
     (if system = router_system then Inr ''weather''
      else if system = location_system then Inr ''Atlantis''
      else Inl (Raised ''Request timed out.''))"

definition silent_llm :: "string \<Rightarrow> string \<Rightarrow> exn + string" where
  "silent_llm system human =
     (if system = router_system then Inr ''weather''
      else if system = location_system then Inr ''Atlantis''
      else if system = weather_system then Inr []
      else Inr ''not json'')"

definition not_found :: response where
  "not_found =
     \<lparr>raise_for_status = Some (Raised ''404 Client Error: Not Found for url''),
      json_body = Inr (JObj [(''cod'', JStr ''404''), (''message'', JStr ''city not found'')])\<rparr>"

definition not_json :: response where
  "not_json =
     \<lparr>raise_for_status = None,
      json_body = Inl (Raised ''Expecting value: line 1 column 1 (char 0)'')\<rparr>"

definition no_fields :: response where
  "no_fields =
     \<lparr>raise_for_status = None,
      json_body = Inr (JObj [(''cod'', JInt 200), (''message'', JStr ''no data'')])\<rparr>"

definition steady_llm :: "string \<Rightarrow> string \<Rightarrow> exn + string" where
  "steady_llm system human =
     (if system = router_system then Inr ''pdf''
      else if system = eval_system then Inr three_scores_text
      else Inr ''I do not have enough information.'')"

definition eval_chain_down :: env where
  "eval_chain_down =
     (mock_json steady_llm [(three_scores_text, three_scores)])
       \<lparr>build_chain :=
          (\<lambda>system. if system = eval_system
                     then Some (Raised ''The api_key client option must be set'')
                     else None)\<rparr>"

section \<open>Properties of the run\<close>

text \<open>The branch stage that the route stored by the router selects.\<close>

definition branch_node :: "env \<Rightarrow> GraphState \<Rightarrow> exn + GraphState" where
  "branch_node env state =
     (if route state = ''weather'' then weather_node env state else rag_retrieval_node env state)"

lemma bind_Inr [simp]: "bind (Inr x) f = f x"
  by (simp add: bind_def)

lemma bind_Inl [simp]: "bind (Inl e) f = Inl e"
  by (simp add: bind_def)

lemma bind_return [simp]: "bind m Inr = m"
  by (cases m) simp_all

lemma next_node_Router:
  "next_node Router state = Inr (if route state = ''weather'' then Weather else Rag_retrieval)"
  by (simp add: route_question_def router_edges_def)

lemma run_from_Evaluation:
  "run_from (Suc fuel) env Evaluation state = evaluation_node env state"
  by (cases "evaluation_node env state") (simp_all add: bind_def)

lemma run_from_Generation:
  "run_from (Suc (Suc fuel)) env Generation state =
     bind (generation_node env state) (evaluation_node env)"
  by (cases "generation_node env state") (simp_all add: run_from_Evaluation)

lemma run_from_branch:
  "n = Weather \<or> n = Rag_retrieval \<Longrightarrow>
   run_from (Suc (Suc (Suc fuel))) env n state =
     bind (run_node env n state) (\<lambda>s2. bind (generation_node env s2) (evaluation_node env))"
  by (cases "run_node env n state") (auto simp add: run_from_Generation)

lemma run_from_Router:
  "run_from (Suc (Suc (Suc (Suc fuel)))) env Router state =
     bind (router_node env state) (\<lambda>s1.
     bind (branch_node env s1) (\<lambda>s2.
     bind (generation_node env s2) (evaluation_node env)))"
  by (cases "router_node env state")
     (simp_all add: next_node_Router run_from_branch branch_node_def del: next_node.simps)

text \<open>
  A run of the graph is the router, the branch stage, generation and evaluation in
  sequence; the recursion limit is never reached.
\<close>

lemma graph_invoke_eq:
  "graph_invoke env state =
     bind (router_node env state) (\<lambda>s1.
     bind (branch_node env s1) (\<lambda>s2.
     bind (generation_node env s2) (evaluation_node env)))"
proof -
  have r: "recursion_limit = Suc (Suc (Suc (Suc 21)))"
    by (simp add: recursion_limit_def)
  show ?thesis
    unfolding graph_invoke_def r by (rule run_from_Router)
qed

section \<open>Routing\<close>

lemma normalise_weather: "lower (strip '' Weather\<newline>'') = ''weather''"
  by code_simp

lemma normalise_banana: "lower (strip ''banana'') = ''banana''"
  by code_simp

text \<open>
  C1. Branch selection is a fail-open function of the normalised classifier output:
  whenever the classifier returns a raw output, the router stage returns and the edge
  out of the router leads to the weather stage if the output, trimmed and lowercased,
  is exactly \<open>weather\<close>, and to the document stage for every other output. No other
  node follows the router.
\<close>

theorem branch_selection_fail_open:
  assumes "chain_call env router_system (question state) = Inr out"
  shows "\<exists>state'. router_node env state = Inr state' \<and>
           next_node Router state' =
             Inr (if lower (strip out) = ''weather'' then Weather else Rag_retrieval)"
  using assms
  by (simp add: router_node_def route_question_def router_edges_def)

theorem branch_selection_fail_open_witness:
  "(\<exists>state'. router_node (offline (\<lambda>system human. Inr '' Weather\<newline>''))
                 (initial_state ''Is it raining in Pune?'') = Inr state' \<and>
              next_node Router state' = Inr Weather) \<and>
   (\<exists>state'. router_node (offline (\<lambda>system human. Inr ''banana''))
                 (initial_state ''Is it raining in Pune?'') = Inr state' \<and>
              next_node Router state' = Inr Rag_retrieval)"
  using
    branch_selection_fail_open [of "offline (\<lambda>system human. Inr '' Weather\<newline>'')"
      "initial_state ''Is it raining in Pune?''" "'' Weather\<newline>''"]
    branch_selection_fail_open [of "offline (\<lambda>system human. Inr ''banana'')"
      "initial_state ''Is it raining in Pune?''" "''banana''"]
  by (simp add: offline_def chain_call_def normalise_weather normalise_banana)

text \<open>
  C2. The route field after the router stage. The router stores the normalised output
  of the classifier as it is: for the output \<open>banana\<close> the state holds the route
  \<open>banana\<close>, which is neither of the two labels that \<open>GraphState\<close> declares.
\<close>

theorem router_stores_unrecognised_route:
  "router_node (offline (\<lambda>system human. Inr ''banana''))
       (initial_state ''What is in the document?'')
     = Inr ((initial_state ''What is in the document?'')\<lparr>route := ''banana''\<rparr>)
   \<and> ''banana'' \<noteq> ''weather'' \<and> ''banana'' \<noteq> ''pdf''"
  by (simp add: router_node_def chain_call_def offline_def normalise_banana)

section \<open>Document retrieval\<close>

lemma extract_results_eq:
  "extract_results results ts ss =
     (ts @ map document_text results, ss @ map relevance_score results)"
  by (induction results arbitrary: ts ss) simp_all

lemma rag_retrieval_try_results:
  assumes "get_vector_store env = None"
    and "retriever_invoke env RETRIEVAL_TOP_K q = Inr documents"
    and "co_rerank env q documents RERANK_TOP_N = Inr results"
  shows "rag_retrieval_try env q =
           ([Retriever_invoke RETRIEVAL_TOP_K q, Co_rerank q documents RERANK_TOP_N],
            Inr (map document_text results,
                 join ''\<newline>\<newline>'' (map document_text results),
                 map relevance_score results))"
  using assms by (simp add: rag_retrieval_try_def extract_results_eq)





text \<open>
  C6, as the code has it. On a successful rerank the passages and the scores are the
  texts and the scores of the reranking client's result list, of the same length and in
  its order, and the context is the texts joined by a blank line. The stage neither
  truncates nor sorts nor clamps: the lists have at most \<open>RERANK_TOP_N = 3\<close> entries
  when the client returns at most the number of results requested, and the scores lie
  between 0 and 1 when the client's scores do.
\<close>

theorem rerank_results_passed_through:
  assumes "get_vector_store env = None"
    and "retriever_invoke env RETRIEVAL_TOP_K (question state) = Inr documents"
    and "co_rerank env (question state) documents RERANK_TOP_N = Inr results"
  shows "\<exists>state'. rag_retrieval_node env state = Inr state'
           \<and> state' = state\<lparr>retrieved_docs := map document_text results,
                             context := join ''\<newline>\<newline>'' (map document_text results),
                             rerank_scores := map relevance_score results\<rparr>
           \<and> length (retrieved_docs state') = length results
           \<and> length (rerank_scores state') = length results
           \<and> (length results \<le> RERANK_TOP_N \<longrightarrow> length (retrieved_docs state') \<le> 3)
           \<and> ((\<forall>r \<in> set results. 0 \<le> relevance_score r \<and> relevance_score r \<le> 1) \<longrightarrow>
                (\<forall>s \<in> set (rerank_scores state'). 0 \<le> s \<and> s \<le> 1))"
  using rag_retrieval_try_results [OF assms]
  by (simp add: rag_retrieval_node_def RERANK_TOP_N_def)

theorem rerank_results_passed_through_witness:
  "rag_retrieval_node (mock_store ten_documents (Inr three_results))
       (initial_state ''Who wrote Wings of Fire?'')
     = Inr ((initial_state ''Who wrote Wings of Fire?'')
              \<lparr>retrieved_docs := [''passage 4'', ''passage 0'', ''passage 7''],
               context := ''passage 4\<newline>\<newline>passage 0\<newline>\<newline>passage 7'',
               rerank_scores := [0.95, 0.89, 0.82]\<rparr>)"
  using rerank_results_passed_through [of "mock_store ten_documents (Inr three_results)"
      "initial_state ''Who wrote Wings of Fire?''" ten_documents three_results]
  by (simp add: mock_store_def initial_state_def three_results_def ten_documents_def
        RETRIEVAL_TOP_K_def)

text \<open>
  The claim as stated fails: a reranking client that returns four results, as the
  doubles of the repository's tests do, gives four passages and four scores.
\<close>

theorem rerank_cardinality_counterexample:
  "co_rerank (mock_store ten_documents (Inr four_results)) ''Who wrote Wings of Fire?''
       ten_documents RERANK_TOP_N = Inr four_results
   \<and> rag_retrieval_node (mock_store ten_documents (Inr four_results))
         (initial_state ''Who wrote Wings of Fire?'')
       = Inr ((initial_state ''Who wrote Wings of Fire?'')
                \<lparr>retrieved_docs := [''passage 0'', ''passage 1'', ''passage 2'', ''passage 3''],
                 context := ''passage 0\<newline>\<newline>passage 1\<newline>\<newline>passage 2\<newline>\<newline>passage 3'',
                 rerank_scores := [0.95, 0.89, 0.82, 0.75]\<rparr>)
   \<and> \<not> length [''passage 0'', ''passage 1'', ''passage 2'', ''passage 3''] \<le> RERANK_TOP_N"
  by (simp add: mock_store_def initial_state_def four_results_def ten_documents_def
        rag_retrieval_node_def rag_retrieval_try_def RETRIEVAL_TOP_K_def RERANK_TOP_N_def)

section \<open>Weather\<close>

lemma str_values:
  "str (JInt 15) = ''15''" "str (JInt 13) = ''13''" "str (JInt 80) = ''80''"
  "str (JFloat ''8.5'') = ''8.5''" "str (JStr s) = s"
  by (simp_all add: str_def str_int_def) code_simp+

text \<open>
  C4. For a well-formed response of the weather service (the request returns, the
  status check passes, the body parses and holds the seven fields read), the weather
  stage returns; the context is the fixed template with the six labelled lines
  \<open>Location\<close>, \<open>Temperature\<close>, \<open>Feels Like\<close>, \<open>Humidity\<close>, \<open>Weather\<close> and \<open>Wind Speed\<close>,
  each holding the value of the response's field as \<open>str\<close> renders it, and the whole
  response is stored as the weather data.
\<close>

theorem weather_context_complete:
  assumes "chain_call env location_system (question state) = Inr out"
    and "requests_get env OPENWEATHER_BASE_URL
           [(''q'', strip out), (''appid'', OPENWEATHER_API_KEY env), (''units'', ''metric'')]
         = Inr resp"
    and "raise_for_status resp = None"
    and "json_body resp = Inr wd"
    and "getitem wd ''name'' = Inr name"
    and "getitem wd ''sys'' = Inr sys" and "getitem sys ''country'' = Inr country"
    and "getitem wd ''main'' = Inr main" and "getitem main ''temp'' = Inr temp"
    and "getitem main ''feels_like'' = Inr feels_like"
    and "getitem main ''humidity'' = Inr humidity"
    and "getitem wd ''weather'' = Inr weather" and "getitem0 weather = Inr first"
    and "getitem first ''description'' = Inr description"
    and "getitem wd ''wind'' = Inr wind" and "getitem wind ''speed'' = Inr speed"
  shows "weather_node env state =
           Inr (state\<lparr>weather_data := wd,
                      context :=
                        ''\<newline>        Location: '' @ str name @ '', '' @ str country
                        @ ''\<newline>        Temperature: '' @ str temp @ [CHR 0xB0, CHR ''C'']
                        @ ''\<newline>        Feels Like: '' @ str feels_like @ [CHR 0xB0, CHR ''C'']
                        @ ''\<newline>        Humidity: '' @ str humidity @ ''%''
                        @ ''\<newline>        Weather: '' @ str description
                        @ ''\<newline>        Wind Speed: '' @ str speed @ '' m/s''
                        @ ''\<newline>        ''\<rparr>)"
  using assms by (simp add: weather_node_def weather_try_def weather_context_def)

theorem weather_context_complete_witness:
  "weather_node
       (mock_weather (\<lambda>system human. Inr ''London'')
          (Inr \<lparr>raise_for_status = None, json_body = Inr london\<rparr>))
       (initial_state ''What is the weather in London?'')
     = Inr ((initial_state ''What is the weather in London?'')
              \<lparr>weather_data := london,
               context :=
                 ''\<newline>        Location: London, GB''
                 @ ''\<newline>        Temperature: 15'' @ [CHR 0xB0, CHR ''C'']
                 @ ''\<newline>        Feels Like: 13'' @ [CHR 0xB0, CHR ''C'']
                 @ ''\<newline>        Humidity: 80%''
                 @ ''\<newline>        Weather: cloudy''
                 @ ''\<newline>        Wind Speed: 8.5 m/s''
                 @ ''\<newline>        ''\<rparr>)"
  using weather_context_complete [of
      "mock_weather (\<lambda>system human. Inr ''London'')
         (Inr \<lparr>raise_for_status = None, json_body = Inr london\<rparr>)"
      "initial_state ''What is the weather in London?''" "''London''"
      "\<lparr>raise_for_status = None, json_body = Inr london\<rparr>" london
      "JStr ''London''" "JObj [(''country'', JStr ''GB'')]" "JStr ''GB''"
      "JObj [(''temp'', JInt 15), (''feels_like'', JInt 13), (''humidity'', JInt 80)]"
      "JInt 15" "JInt 13" "JInt 80"
      "JArr [JObj [(''description'', JStr ''cloudy'')]]"
      "JObj [(''description'', JStr ''cloudy'')]" "JStr ''cloudy''"
      "JObj [(''speed'', JFloat ''8.5'')]" "JFloat ''8.5''"]
  by (simp add: mock_weather_def chain_call_def london_def str_values strip_def isspace_def)

text \<open>
  The fetch fails with \<open>e\<close> exactly when the request raises \<open>e\<close> (a network error), the
  status check raises \<open>e\<close>, the body does not parse, or a field read by the template
  is missing or of the wrong shape.
\<close>

lemma weather_try_failures:
  "weather_try env city = Inl e \<longleftrightarrow>
     requests_get env OPENWEATHER_BASE_URL
       [(''q'', city), (''appid'', OPENWEATHER_API_KEY env), (''units'', ''metric'')] = Inl e
   \<or> (\<exists>resp. requests_get env OPENWEATHER_BASE_URL
          [(''q'', city), (''appid'', OPENWEATHER_API_KEY env), (''units'', ''metric'')] = Inr resp
        \<and> (raise_for_status resp = Some e
           \<or> raise_for_status resp = None \<and> json_body resp = Inl e
           \<or> (\<exists>wd. raise_for_status resp = None \<and> json_body resp = Inr wd
                 \<and> weather_context wd = Inl e)))"
  by (auto simp add: weather_try_def bind_def split: sum.splits option.splits)

lemma generation_node_weather:
  assumes "route state = ''weather''"
    and "chain_call env weather_system
           (''Weather Data:\<newline>'' @ context state @ ''\<newline>\<newline>Question: '' @ question state
            @ ''\<newline>\<newline>Answer:'') = r"
  shows "generation_node env state = bind r (\<lambda>g. Inr (state\<lparr>generation := g\<rparr>))"
  using assms by (simp add: generation_node_def generation_prompt_def)

lemma evaluation_node_returns:
  assumes "build_chain env eval_system = None"
  shows "\<exists>ev. evaluation_node env state = Inr (state\<lparr>evaluation := ev\<rparr>)"
  using assms by (cases "evaluation_try env state") (auto simp add: evaluation_node_def)

text \<open>
  C5, as the code has it. For every fetch failure \<open>e\<close> (the request raises, the status
  check raises, the body does not parse, or a field read by the template is missing),
  once the city has been extracted, the weather stage does not raise: it returns the
  state with empty weather data and the context \<open>Error fetching weather data: \<close>
  followed by the text of \<open>e\<close>. On the weather route the run goes on to generation with
  that context: it reaches its end, with the generation reply as its answer, when the
  generation call returns and the evaluation chain is built, and it raises when the
  generation call raises.
\<close>

theorem weather_fetch_failure_degrades:
  assumes "chain_call env location_system q = Inr out"
    and "requests_get env OPENWEATHER_BASE_URL
           [(''q'', strip out), (''appid'', OPENWEATHER_API_KEY env), (''units'', ''metric'')]
         = Inl e
       \<or> (\<exists>resp. requests_get env OPENWEATHER_BASE_URL
              [(''q'', strip out), (''appid'', OPENWEATHER_API_KEY env), (''units'', ''metric'')]
            = Inr resp
            \<and> (raise_for_status resp = Some e
               \<or> raise_for_status resp = None \<and> json_body resp = Inl e
               \<or> (\<exists>wd. raise_for_status resp = None \<and> json_body resp = Inr wd
                     \<and> weather_context wd = Inl e)))"
  shows "(\<forall>state. question state = q \<longrightarrow>
            weather_node env state =
              Inr (state\<lparr>weather_data := JObj [],
                         context := ''Error fetching weather data: '' @ exn_str e\<rparr>))
         \<and> (\<forall>r a. chain_call env router_system q = Inr r \<and> lower (strip r) = ''weather''
               \<and> chain_call env weather_system
                    (''Weather Data:\<newline>'' @ (''Error fetching weather data: '' @ exn_str e)
                     @ ''\<newline>\<newline>Question: '' @ q @ ''\<newline>\<newline>Answer:'') = Inr a
               \<and> build_chain env eval_system = None \<longrightarrow>
               (\<exists>final. process_query_async env q = Inr final
                  \<and> weather_data final = JObj []
                  \<and> context final = ''Error fetching weather data: '' @ exn_str e
                  \<and> generation final = a))
         \<and> (\<forall>r e'. chain_call env router_system q = Inr r \<and> lower (strip r) = ''weather''
               \<and> chain_call env weather_system
                    (''Weather Data:\<newline>'' @ (''Error fetching weather data: '' @ exn_str e)
                     @ ''\<newline>\<newline>Question: '' @ q @ ''\<newline>\<newline>Answer:'') = Inl e' \<longrightarrow>
               process_query_async env q = Inl e')"
proof -
  let ?s1 = "(initial_state q)\<lparr>route := ''weather''\<rparr>"
  let ?s2 = "?s1\<lparr>weather_data := JObj [],
                  context := ''Error fetching weather data: '' @ exn_str e\<rparr>"
  from assms(2) have fails: "weather_try env (strip out) = Inl e"
    by (simp only: weather_try_failures)
  have stage: "\<forall>state. question state = q \<longrightarrow>
      weather_node env state =
        Inr (state\<lparr>weather_data := JObj [],
                   context := ''Error fetching weather data: '' @ exn_str e\<rparr>)"
    using assms(1) fails by (simp add: weather_node_def)
  have q1: "question ?s1 = q"
    by (simp add: initial_state_def)
  have branch: "branch_node env ?s1 = Inr ?s2"
    using stage q1 by (simp add: branch_node_def)
  have run: "process_query_async env q =
      bind (generation_node env ?s2) (evaluation_node env)"
    if "chain_call env router_system q = Inr r" and "lower (strip r) = ''weather''" for r
  proof -
    have "router_node env (initial_state q) = Inr ?s1"
      using that by (simp add: router_node_def initial_state_def)
    with branch show ?thesis
      by (simp add: process_query_async_def graph_invoke_eq)
  qed
  have gen: "generation_node env ?s2 = bind g (\<lambda>a. Inr (?s2\<lparr>generation := a\<rparr>))"
    if "chain_call env weather_system
          (''Weather Data:\<newline>'' @ (''Error fetching weather data: '' @ exn_str e)
           @ ''\<newline>\<newline>Question: '' @ q @ ''\<newline>\<newline>Answer:'') = g" for g
    using that by (intro generation_node_weather) (simp_all add: initial_state_def)
  have returns: "\<forall>r a. chain_call env router_system q = Inr r \<and> lower (strip r) = ''weather''
      \<and> chain_call env weather_system
           (''Weather Data:\<newline>'' @ (''Error fetching weather data: '' @ exn_str e)
            @ ''\<newline>\<newline>Question: '' @ q @ ''\<newline>\<newline>Answer:'') = Inr a
      \<and> build_chain env eval_system = None \<longrightarrow>
      (\<exists>final. process_query_async env q = Inr final
         \<and> weather_data final = JObj []
         \<and> context final = ''Error fetching weather data: '' @ exn_str e
         \<and> generation final = a)"
  proof (intro allI impI)
    fix r a
    assume h: "chain_call env router_system q = Inr r \<and> lower (strip r) = ''weather''
      \<and> chain_call env weather_system
           (''Weather Data:\<newline>'' @ (''Error fetching weather data: '' @ exn_str e)
            @ ''\<newline>\<newline>Question: '' @ q @ ''\<newline>\<newline>Answer:'') = Inr a
      \<and> build_chain env eval_system = None"
    then obtain ev where
      "evaluation_node env (?s2\<lparr>generation := a\<rparr>) = Inr (?s2\<lparr>generation := a, evaluation := ev\<rparr>)"
      using evaluation_node_returns [of env "?s2\<lparr>generation := a\<rparr>"] by auto
    with h have "process_query_async env q = Inr (?s2\<lparr>generation := a, evaluation := ev\<rparr>)"
      using run [of r] gen [of "Inr a"] by simp
    then show "\<exists>final. process_query_async env q = Inr final
        \<and> weather_data final = JObj []
        \<and> context final = ''Error fetching weather data: '' @ exn_str e
        \<and> generation final = a"
      by simp
  qed
  have raises: "\<forall>r e'. chain_call env router_system q = Inr r \<and> lower (strip r) = ''weather''
      \<and> chain_call env weather_system
           (''Weather Data:\<newline>'' @ (''Error fetching weather data: '' @ exn_str e)
            @ ''\<newline>\<newline>Question: '' @ q @ ''\<newline>\<newline>Answer:'') = Inl e' \<longrightarrow>
      process_query_async env q = Inl e'"
  proof (intro allI impI)
    fix r e'
    assume h: "chain_call env router_system q = Inr r \<and> lower (strip r) = ''weather''
      \<and> chain_call env weather_system
           (''Weather Data:\<newline>'' @ (''Error fetching weather data: '' @ exn_str e)
            @ ''\<newline>\<newline>Question: '' @ q @ ''\<newline>\<newline>Answer:'') = Inl e'"
    then show "process_query_async env q = Inl e'"
      using run [of r] gen [of "Inl e'"] by simp
  qed
  from stage returns raises show ?thesis
    by (intro conjI)
qed

lemma degraded_llm_replies:
  "degraded_llm router_system h = Inr ''weather''"
  "degraded_llm location_system h = Inr ''Atlantis''"
  "degraded_llm weather_system h = Inr ''I could not fetch the weather for Atlantis.''"
  by (simp_all add: degraded_llm_def replies_def router_system_def location_system_def
        weather_system_def)

lemma normalise_plain: "lower (strip ''weather'') = ''weather''" "strip ''Atlantis'' = ''Atlantis''"
  by code_simp+

lemma key_error_name: "repr_str ''name'' = quoted ''name''"
  by code_simp

lemma no_fields_context:
  "weather_context (JObj [(''cod'', JInt 200), (''message'', JStr ''no data'')])
     = Inl (KeyError (JStr ''name''))"
  by (simp add: weather_context_def)

theorem weather_fetch_failure_degrades_witness:
  "weather_node (mock_weather degraded_llm (Inl (Raised ''timed out'')))
       (initial_state ''What is the weather in Atlantis?'')
     = Inr ((initial_state ''What is the weather in Atlantis?'')
              \<lparr>weather_data := JObj [],
               context := ''Error fetching weather data: timed out''\<rparr>)
   \<and> weather_node (mock_weather degraded_llm (Inr not_found))
       (initial_state ''What is the weather in Atlantis?'')
     = Inr ((initial_state ''What is the weather in Atlantis?'')
              \<lparr>weather_data := JObj [],
               context := ''Error fetching weather data: 404 Client Error: Not Found for url''\<rparr>)
   \<and> weather_node (mock_weather degraded_llm (Inr not_json))
       (initial_state ''What is the weather in Atlantis?'')
     = Inr ((initial_state ''What is the weather in Atlantis?'')
              \<lparr>weather_data := JObj [],
               context := ''Error fetching weather data: Expecting value: line 1 column 1 (char 0)''\<rparr>)
   \<and> weather_node (mock_weather degraded_llm (Inr no_fields))
       (initial_state ''What is the weather in Atlantis?'')
     = Inr ((initial_state ''What is the weather in Atlantis?'')
              \<lparr>weather_data := JObj [],
               context := ''Error fetching weather data: '' @ quoted ''name''\<rparr>)
   \<and> (\<exists>final. process_query_async (mock_weather degraded_llm (Inl (Raised ''timed out'')))
                  ''What is the weather in Atlantis?'' = Inr final
          \<and> weather_data final = JObj []
          \<and> context final = ''Error fetching weather data: timed out''
          \<and> generation final = ''I could not fetch the weather for Atlantis.'')"
proof -
  let ?q = "''What is the weather in Atlantis?''"
  have city: "chain_call (mock_weather degraded_llm fetched) location_system ?q = Inr ''Atlantis''"
    for fetched
    by (simp add: chain_call_def mock_weather_def degraded_llm_replies)
  have q: "question (initial_state ?q) = ?q"
    by (simp add: initial_state_def)
  have network: "weather_node (mock_weather degraded_llm (Inl (Raised ''timed out'')))
       (initial_state ?q)
     = Inr ((initial_state ?q)
              \<lparr>weather_data := JObj [],
               context := ''Error fetching weather data: timed out''\<rparr>)"
    using weather_fetch_failure_degrades [OF city, of "Inl (Raised ''timed out'')" "Raised ''timed out''"] q
    by (simp add: mock_weather_def)
  have status: "weather_node (mock_weather degraded_llm (Inr not_found)) (initial_state ?q)
     = Inr ((initial_state ?q)
              \<lparr>weather_data := JObj [],
               context := ''Error fetching weather data: 404 Client Error: Not Found for url''\<rparr>)"
    using weather_fetch_failure_degrades [OF city, of "Inr not_found"
        "Raised ''404 Client Error: Not Found for url''"] q
    by (simp add: mock_weather_def not_found_def)
  have body: "weather_node (mock_weather degraded_llm (Inr not_json)) (initial_state ?q)
     = Inr ((initial_state ?q)
              \<lparr>weather_data := JObj [],
               context := ''Error fetching weather data: Expecting value: line 1 column 1 (char 0)''\<rparr>)"
    using weather_fetch_failure_degrades [OF city, of "Inr not_json"
        "Raised ''Expecting value: line 1 column 1 (char 0)''"] q
    by (simp add: mock_weather_def not_json_def)
  have fields: "weather_node (mock_weather degraded_llm (Inr no_fields)) (initial_state ?q)
     = Inr ((initial_state ?q)
              \<lparr>weather_data := JObj [],
               context := ''Error fetching weather data: '' @ quoted ''name''\<rparr>)"
    using weather_fetch_failure_degrades [OF city, of "Inr no_fields" "KeyError (JStr ''name'')"] q
    by (simp add: mock_weather_def no_fields_def no_fields_context key_error_name)
  have run: "\<exists>final. process_query_async (mock_weather degraded_llm (Inl (Raised ''timed out'')))
                  ?q = Inr final
          \<and> weather_data final = JObj []
          \<and> context final = ''Error fetching weather data: timed out''
          \<and> generation final = ''I could not fetch the weather for Atlantis.''"
    using weather_fetch_failure_degrades [OF city, of "Inl (Raised ''timed out'')" "Raised ''timed out''"]
    by (simp add: mock_weather_def chain_call_def degraded_llm_replies normalise_plain)
  from network status body fields run show ?thesis
    by (intro conjI)
qed

lemma generation_down_llm_replies:
  "generation_down_llm router_system h = Inr ''weather''"
  "generation_down_llm location_system h = Inr ''Atlantis''"
  "generation_down_llm weather_system h = Inl (Raised ''Request timed out.'')"
  by (simp_all add: generation_down_llm_def router_system_def location_system_def
        weather_system_def)

lemma silent_llm_replies:
  "silent_llm router_system h = Inr ''weather''"
  "silent_llm location_system h = Inr ''Atlantis''"
  "silent_llm weather_system h = Inr []"
  "silent_llm eval_system h = Inr ''not json''"
  by (simp_all add: silent_llm_def router_system_def location_system_def weather_system_def
        eval_system_def)

lemma clean_not_json: "clean_eval_result ''not json'' = ''not json''"
  by code_simp

text \<open>
  The claim as stated fails: after the same fetch failure the run does not reach its end
  when the generation call raises, and it ends with the empty answer when the
  generation call returns the empty string.
\<close>

theorem fetch_failure_then_generation_counterexample:
  "weather_try (mock_weather generation_down_llm (Inl (Raised ''timed out''))) ''Atlantis''
     = Inl (Raised ''timed out'')
   \<and> process_query_async (mock_weather generation_down_llm (Inl (Raised ''timed out'')))
       ''What is the weather in Atlantis?''
     = Inl (Raised ''Request timed out.'')
   \<and> process_query_async (mock_weather silent_llm (Inl (Raised ''timed out'')))
       ''What is the weather in Atlantis?''
     = Inr ((initial_state ''What is the weather in Atlantis?'')
              \<lparr>route := ''weather'',
               context := ''Error fetching weather data: timed out'',
               generation := [],
               evaluation :=
                 JObj [(''error'', JStr ''Expecting value: line 1 column 1 (char 0)'')]\<rparr>)"
proof -
  let ?q = "''What is the weather in Atlantis?''"
  let ?s1 = "(initial_state ?q)\<lparr>route := ''weather''\<rparr>"
  let ?s2 = "?s1\<lparr>weather_data := JObj [], context := ''Error fetching weather data: timed out''\<rparr>"
  let ?down = "mock_weather generation_down_llm (Inl (Raised ''timed out''))"
  let ?silent = "mock_weather silent_llm (Inl (Raised ''timed out''))"
  have fetch: "weather_try ?down ''Atlantis'' = Inl (Raised ''timed out'')"
    by (simp add: weather_try_def mock_weather_def)
  have "router_node ?down (initial_state ?q) = Inr ?s1"
    by (simp add: router_node_def chain_call_def mock_weather_def generation_down_llm_replies
          normalise_plain)
  moreover have "branch_node ?down ?s1 = Inr ?s2"
    by (simp add: branch_node_def weather_node_def weather_try_def chain_call_def
          mock_weather_def generation_down_llm_replies normalise_plain initial_state_def)
  moreover have "generation_node ?down ?s2 = Inl (Raised ''Request timed out.'')"
    by (simp add: generation_node_def generation_prompt_def chain_call_def mock_weather_def
          generation_down_llm_replies)
  ultimately have down: "process_query_async ?down ?q = Inl (Raised ''Request timed out.'')"
    by (simp add: process_query_async_def graph_invoke_eq)
  have "router_node ?silent (initial_state ?q) = Inr ?s1"
    by (simp add: router_node_def chain_call_def mock_weather_def silent_llm_replies
          normalise_plain)
  moreover have "branch_node ?silent ?s1 = Inr ?s2"
    by (simp add: branch_node_def weather_node_def weather_try_def chain_call_def
          mock_weather_def silent_llm_replies normalise_plain initial_state_def)
  moreover have "generation_node ?silent ?s2 = Inr (?s2\<lparr>generation := []\<rparr>)"
    by (simp add: generation_node_def generation_prompt_def chain_call_def mock_weather_def
          silent_llm_replies)
  moreover have "evaluation_node ?silent (?s2\<lparr>generation := []\<rparr>)
      = Inr (?s2\<lparr>generation := [],
                 evaluation :=
                   JObj [(''error'', JStr ''Expecting value: line 1 column 1 (char 0)'')]\<rparr>)"
    by (simp add: evaluation_node_def evaluation_try_def mock_weather_def silent_llm_replies
          clean_not_json)
  ultimately have "process_query_async ?silent ?q
      = Inr (?s2\<lparr>generation := [],
                 evaluation :=
                   JObj [(''error'', JStr ''Expecting value: line 1 column 1 (char 0)'')]\<rparr>)"
    by (simp add: process_query_async_def graph_invoke_eq)
  then have silent: "process_query_async ?silent ?q
      = Inr ((initial_state ?q)
              \<lparr>route := ''weather'',
               context := ''Error fetching weather data: timed out'',
               generation := [],
               evaluation :=
                 JObj [(''error'', JStr ''Expecting value: line 1 column 1 (char 0)'')]\<rparr>)"
    by (simp add: initial_state_def)
  from fetch down silent show ?thesis
    by (intro conjI)
qed

section \<open>Evaluation\<close>

lemma remove_from_skip:
  "remove_from old (length xs) (xs @ ys) = remove_from old 0 ys"
  by (induction xs) simp_all

lemma remove_from_match:
  assumes "old \<noteq> []"
  shows "remove_from old 0 (old @ ys) = remove_from old 0 ys"
proof -
  from assms obtain c cs where old: "old = c # cs"
    by (cases old) auto
  have "remove_from old 0 (old @ ys) = remove_from old (length cs) (cs @ ys)"
    by (simp add: old startswith_def)
  then show ?thesis
    by (simp add: remove_from_skip)
qed

lemma remove_from_no_match:
  assumes "old \<noteq> []" and "hd old \<notin> set xs"
  shows "remove_from old 0 (xs @ ys) = xs @ remove_from old 0 ys"
  using assms
proof (induction xs)
  case Nil
  then show ?case by simp
next
  case (Cons x xs)
  from Cons.prems obtain c cs where old: "old = c # cs"
    by (cases old) auto
  with Cons.prems have "x \<noteq> c"
    by auto
  then have "\<not> startswith (x # xs @ ys) old"
    by (auto simp add: startswith_def old)
  with Cons show ?case
    by simp
qed

lemma remove_json_fence_from_fence: "remove_from (fence @ ''json'') 0 fence = fence"
  by (simp add: fence_def startswith_def)

lemma startswith_fence:
  assumes "startswith s (fence @ ''json'')"
  shows "startswith s fence"
proof -
  from assms have "take (length (fence @ ''json'')) s = fence @ ''json''"
    by (simp add: startswith_def)
  then have "take (length fence) (take (length (fence @ ''json'')) s) = fence"
    by simp
  then show ?thesis
    by (simp add: startswith_def min_def)
qed

lemma clean_bare:
  assumes "\<not> startswith (strip raw) fence"
  shows "clean_eval_result raw = strip raw"
  using assms startswith_fence [of "strip raw"]
  by (auto simp add: clean_eval_result_def Let_def)

lemma clean_fenced_json:
  assumes "strip raw = fence @ ''json'' @ body @ fence" and "CHR 0x60 \<notin> set body"
  shows "clean_eval_result raw = body"
proof -
  have s: "startswith (strip raw) (fence @ ''json'')"
    by (simp add: assms(1) startswith_def)
  have "replace_empty (strip raw) (fence @ ''json'')
          = remove_from (fence @ ''json'') 0 ((fence @ ''json'') @ (body @ fence))"
    by (simp add: replace_empty_def assms(1))
  also have "\<dots> = remove_from (fence @ ''json'') 0 (body @ fence)"
    by (rule remove_from_match) (simp add: fence_def)
  also have "\<dots> = body @ remove_from (fence @ ''json'') 0 fence"
    using assms(2) by (intro remove_from_no_match) (simp_all add: fence_def)
  finally have 1: "replace_empty (strip raw) (fence @ ''json'') = body @ fence"
    by (simp add: remove_json_fence_from_fence)
  have "replace_empty (body @ fence) fence = body @ remove_from fence 0 (fence @ [])"
    unfolding replace_empty_def using assms(2)
    by (simp add: remove_from_no_match fence_def)
  also have "remove_from fence 0 (fence @ []) = remove_from fence 0 []"
    by (rule remove_from_match) (simp add: fence_def)
  finally have 2: "replace_empty (body @ fence) fence = body"
    by simp
  show ?thesis
    using s by (simp add: clean_eval_result_def Let_def 1 2)
qed

lemma clean_fenced:
  assumes "strip raw = fence @ body @ fence" and "CHR 0x60 \<notin> set body"
    and "\<not> startswith (strip raw) (fence @ ''json'')"
  shows "clean_eval_result raw = body"
proof -
  have s: "startswith (strip raw) fence"
    by (simp add: assms(1) startswith_def)
  have "replace_empty (strip raw) fence = remove_from fence 0 (fence @ (body @ fence))"
    by (simp add: replace_empty_def assms(1))
  also have "\<dots> = remove_from fence 0 (body @ fence)"
    by (rule remove_from_match) (simp add: fence_def)
  also have "\<dots> = body @ remove_from fence 0 (fence @ [])"
    using assms(2) by (simp add: remove_from_no_match fence_def)
  also have "remove_from fence 0 (fence @ []) = remove_from fence 0 []"
    by (rule remove_from_match) (simp add: fence_def)
  finally have "replace_empty (strip raw) fence = body"
    by simp
  with s assms(3) show ?thesis
    by (simp add: clean_eval_result_def Let_def)
qed

lemma run_ends_with_evaluation:
  assumes "router_node env (initial_state q) = Inr s1"
    and "branch_node env s1 = Inr s2"
    and "generation_node env s2 = Inr s3"
  shows "process_query_async env q = evaluation_node env s3"
  using assms by (simp add: process_query_async_def graph_invoke_eq)


lemma evaluation_node_parsed:
  assumes "chain_call env eval_system (evaluation_human state) = Inr raw"
  shows "evaluation_node env state =
           Inr (state\<lparr>evaluation :=
                        (case json_loads env (clean_eval_result raw) of
                           Inr v \<Rightarrow> v
                         | Inl e \<Rightarrow> JObj [(''error'', JStr (exn_str e))])\<rparr>)"
  using assms
  by (cases "json_loads env (clean_eval_result raw)")
     (auto simp add: evaluation_node_def evaluation_try_def chain_call_def split: option.splits)

text \<open>
  C7, as the code has it. When the evaluation chain returns a reply, the evaluation
  stage strips it and removes the fence markers when the stripped reply starts with
  one: a reply without a leading fence is parsed as it is, a reply fenced with the
  \<open>json\<close> tag or with bare fences is parsed as the text between the fences. When the
  parse succeeds the evaluation is the parsed value, whatever its shape: the
  three-score map when the reply is that object, a list or a map with fields missing
  when the reply is one. When the parse fails the stage does not raise and the
  evaluation is the map whose field \<open>error\<close> holds the text of the failure. In both
  cases a run that has reached the stage reaches its end.
\<close>

theorem evaluation_parse_policy:
  assumes "chain_call env eval_system (evaluation_human state) = Inr raw"
  shows "(\<not> startswith (strip raw) fence \<longrightarrow> clean_eval_result raw = strip raw)
       \<and> (\<forall>body. strip raw = fence @ ''json'' @ body @ fence \<and> CHR 0x60 \<notin> set body \<longrightarrow>
             clean_eval_result raw = body)
       \<and> (\<forall>body. strip raw = fence @ body @ fence \<and> CHR 0x60 \<notin> set body
             \<and> \<not> startswith (strip raw) (fence @ ''json'') \<longrightarrow>
             clean_eval_result raw = body)
       \<and> (\<forall>v. json_loads env (clean_eval_result raw) = Inr v \<longrightarrow>
             evaluation_node env state = Inr (state\<lparr>evaluation := v\<rparr>))
       \<and> (\<forall>e. json_loads env (clean_eval_result raw) = Inl e \<longrightarrow>
             evaluation_node env state =
               Inr (state\<lparr>evaluation := JObj [(''error'', JStr (exn_str e))]\<rparr>))
       \<and> (\<forall>q s1 s2. router_node env (initial_state q) = Inr s1 \<and> branch_node env s1 = Inr s2
             \<and> generation_node env s2 = Inr state \<longrightarrow>
             (\<exists>final. process_query_async env q = Inr final
                \<and> evaluation_node env state = Inr final))"
proof -
  have bare: "\<not> startswith (strip raw) fence \<longrightarrow> clean_eval_result raw = strip raw"
    by (simp add: clean_bare)
  have fenced_json: "\<forall>body. strip raw = fence @ ''json'' @ body @ fence \<and> CHR 0x60 \<notin> set body \<longrightarrow>
      clean_eval_result raw = body"
    by (simp add: clean_fenced_json)
  have fenced: "\<forall>body. strip raw = fence @ body @ fence \<and> CHR 0x60 \<notin> set body
      \<and> \<not> startswith (strip raw) (fence @ ''json'') \<longrightarrow> clean_eval_result raw = body"
    using clean_fenced [of raw] by blast
  have parsed: "\<forall>v. json_loads env (clean_eval_result raw) = Inr v \<longrightarrow>
      evaluation_node env state = Inr (state\<lparr>evaluation := v\<rparr>)"
    by (simp add: evaluation_node_parsed [OF assms])
  have failed: "\<forall>e. json_loads env (clean_eval_result raw) = Inl e \<longrightarrow>
      evaluation_node env state =
        Inr (state\<lparr>evaluation := JObj [(''error'', JStr (exn_str e))]\<rparr>)"
    by (simp add: evaluation_node_parsed [OF assms])
  have ends: "\<forall>q s1 s2. router_node env (initial_state q) = Inr s1 \<and> branch_node env s1 = Inr s2
      \<and> generation_node env s2 = Inr state \<longrightarrow>
      (\<exists>final. process_query_async env q = Inr final \<and> evaluation_node env state = Inr final)"
    using evaluation_node_parsed [OF assms] by (simp add: run_ends_with_evaluation)
  from bare fenced_json fenced parsed failed ends show ?thesis
    by (intro conjI)
qed

lemma rubric_env_calls:
  "chain_call (rubric_env reply) system human = Inr reply"
  "json_loads (rubric_env reply) padded_scores_text = Inr three_scores"
  "json_loads (rubric_env reply) three_scores_text = Inr three_scores"
  "json_loads (rubric_env reply) ''not json''
     = Inl (Raised ''Expecting value: line 1 column 1 (char 0)'')"
  "json_loads (rubric_env reply) ''[8, 9, 7]'' = Inr (JArr [JInt 8, JInt 9, JInt 7])"
  "json_loads (rubric_env reply) one_score_text = Inr (JObj [(''relevance'', JInt 8)])"
  by (simp_all add: rubric_env_def mock_json_def chain_call_def three_scores_text_def
        padded_scores_text_def one_score_text_def dquoted_def)

lemma clean_examples:
  "clean_eval_result fenced_reply = padded_scores_text"
  "clean_eval_result padded_reply = padded_scores_text"
  "clean_eval_result three_scores_text = three_scores_text"
  "clean_eval_result ''not json'' = ''not json''"
  "clean_eval_result ''[8, 9, 7]'' = ''[8, 9, 7]''"
  "clean_eval_result one_score_text = one_score_text"
  by code_simp+

theorem evaluation_parse_policy_witness:
  "evaluation_node (rubric_env fenced_reply) answered
     = Inr (answered\<lparr>evaluation := three_scores\<rparr>)
   \<and> evaluation_node (rubric_env padded_reply) answered
     = Inr (answered\<lparr>evaluation := three_scores\<rparr>)
   \<and> evaluation_node (rubric_env three_scores_text) answered
     = Inr (answered\<lparr>evaluation := three_scores\<rparr>)
   \<and> evaluation_node (rubric_env ''not json'') answered
     = Inr (answered\<lparr>evaluation :=
              JObj [(''error'', JStr ''Expecting value: line 1 column 1 (char 0)'')]\<rparr>)"
proof -
  note p = evaluation_parse_policy [OF rubric_env_calls(1), of _ answered]
  from p [of fenced_reply]
  have 1: "evaluation_node (rubric_env fenced_reply)
      answered = Inr (answered\<lparr>evaluation := three_scores\<rparr>)"
    by (simp add: clean_examples rubric_env_calls)
  from p [of padded_reply]
  have 2: "evaluation_node (rubric_env padded_reply)
      answered = Inr (answered\<lparr>evaluation := three_scores\<rparr>)"
    by (simp add: clean_examples rubric_env_calls)
  from p [of three_scores_text]
  have 3: "evaluation_node (rubric_env three_scores_text) answered
      = Inr (answered\<lparr>evaluation := three_scores\<rparr>)"
    by (simp add: clean_examples rubric_env_calls)
  from p [of "''not json''"]
  have 4: "evaluation_node (rubric_env ''not json'') answered
      = Inr (answered\<lparr>evaluation :=
               JObj [(''error'', JStr ''Expecting value: line 1 column 1 (char 0)'')]\<rparr>)"
    by (simp add: clean_examples rubric_env_calls)
  from 1 2 3 4 show ?thesis
    by (intro conjI)
qed

text \<open>
  The claim as stated fails: a reply that parses need not give the three-score map. The
  list \<open>[8, 9, 7]\<close> and the map with the single field \<open>relevance\<close> parse, and each is stored
  as the evaluation; neither is the three-score map nor holds an \<open>error\<close> field.
\<close>

theorem parsed_value_not_checked_counterexample:
  "json_loads (rubric_env ''[8, 9, 7]'') (clean_eval_result ''[8, 9, 7]'')
     = Inr (JArr [JInt 8, JInt 9, JInt 7])
   \<and> evaluation_node (rubric_env ''[8, 9, 7]'') answered
     = Inr (answered\<lparr>evaluation := JArr [JInt 8, JInt 9, JInt 7]\<rparr>)
   \<and> JArr [JInt 8, JInt 9, JInt 7] \<noteq> three_scores
   \<and> evaluation_node (rubric_env one_score_text) answered
     = Inr (answered\<lparr>evaluation := JObj [(''relevance'', JInt 8)]\<rparr>)
   \<and> JObj [(''relevance'', JInt 8)] \<noteq> three_scores
   \<and> getitem (JObj [(''relevance'', JInt 8)]) ''accuracy'' = Inl (KeyError (JStr ''accuracy''))
   \<and> getitem (JObj [(''relevance'', JInt 8)]) ''error'' = Inl (KeyError (JStr ''error''))"
  by (simp add: evaluation_node_parsed [OF rubric_env_calls(1)] clean_examples rubric_env_calls
        three_scores_def)

lemma eval_down_llm_replies:
  "eval_down_llm eval_system h = Inl (Raised ''Request timed out.'')"
  "eval_down_llm router_system h = Inr ''pdf''"
  "eval_down_llm pdf_system h = Inr ''I do not have enough information.''"
  by (simp_all add: eval_down_llm_def eval_system_def router_system_def pdf_system_def)

lemma normalise_pdf: "lower (strip ''pdf'') = ''pdf''"
  by code_simp

text \<open>
  C10, as the code has it. Once its chain is built, the evaluation stage never raises:
  whatever the chat model and the parser do, it returns the state with some
  evaluation. Every exception of its \<open>try\<close> block, a failure of the chat model call
  included, gives the map whose single field \<open>error\<close> holds the text of the exception,
  and a run that has reached the stage reaches its end. An exception raised while the
  stage builds its chain, before the \<open>try\<close> block, is not caught: it leaves the stage
  and ends the run.
\<close>

theorem evaluation_swallows_try_block_faults:
  "(build_chain env eval_system = None \<longrightarrow>
      (\<exists>ev. evaluation_node env state = Inr (state\<lparr>evaluation := ev\<rparr>))
    \<and> (\<forall>e. llm_invoke env eval_system (evaluation_human state) = Inl e \<longrightarrow>
          evaluation_node env state =
            Inr (state\<lparr>evaluation := JObj [(''error'', JStr (exn_str e))]\<rparr>))
    \<and> (\<forall>e. evaluation_try env state = Inl e \<longrightarrow>
          evaluation_node env state =
            Inr (state\<lparr>evaluation := JObj [(''error'', JStr (exn_str e))]\<rparr>))
    \<and> (\<forall>q s1 s2. router_node env (initial_state q) = Inr s1 \<and> branch_node env s1 = Inr s2
          \<and> generation_node env s2 = Inr state \<longrightarrow>
          (\<exists>ev. process_query_async env q = Inr (state\<lparr>evaluation := ev\<rparr>))))
   \<and> (\<forall>e. build_chain env eval_system = Some e \<longrightarrow>
         evaluation_node env state = Inl e
       \<and> (\<forall>q s1 s2. router_node env (initial_state q) = Inr s1 \<and> branch_node env s1 = Inr s2
             \<and> generation_node env s2 = Inr state \<longrightarrow>
             process_query_async env q = Inl e))"
proof (intro conjI impI allI)
  assume built: "build_chain env eval_system = None"
  then show returns: "\<exists>ev. evaluation_node env state = Inr (state\<lparr>evaluation := ev\<rparr>)"
    by (rule evaluation_node_returns)
  show "evaluation_node env state =
      Inr (state\<lparr>evaluation := JObj [(''error'', JStr (exn_str e))]\<rparr>)"
    if "llm_invoke env eval_system (evaluation_human state) = Inl e" for e
    using that built by (simp add: evaluation_node_def evaluation_try_def)
  show "evaluation_node env state =
      Inr (state\<lparr>evaluation := JObj [(''error'', JStr (exn_str e))]\<rparr>)"
    if "evaluation_try env state = Inl e" for e
    using that built by (simp add: evaluation_node_def)
  show "\<exists>ev. process_query_async env q = Inr (state\<lparr>evaluation := ev\<rparr>)"
    if "router_node env (initial_state q) = Inr s1 \<and> branch_node env s1 = Inr s2
          \<and> generation_node env s2 = Inr state" for q s1 s2
    using that returns by (simp add: run_ends_with_evaluation)
next
  fix e
  assume down: "build_chain env eval_system = Some e"
  then show raises: "evaluation_node env state = Inl e"
    by (simp add: evaluation_node_def)
  show "process_query_async env q = Inl e"
    if "router_node env (initial_state q) = Inr s1 \<and> branch_node env s1 = Inr s2
          \<and> generation_node env s2 = Inr state" for q s1 s2
    using that raises by (simp add: run_ends_with_evaluation)
qed

theorem evaluation_swallows_try_block_faults_witness:
  "evaluation_node (offline eval_down_llm) answered
     = Inr (answered\<lparr>evaluation := JObj [(''error'', JStr ''Request timed out.'')]\<rparr>)
   \<and> (\<exists>ev. process_query_async (offline eval_down_llm) ''Who wrote Wings of Fire?''
              = Inr ((initial_state ''Who wrote Wings of Fire?'')
                       \<lparr>route := ''pdf'',
                        context := ''Error retrieving documents: connection refused'',
                        generation := ''I do not have enough information.'',
                        evaluation := ev\<rparr>))"
proof -
  let ?env = "offline eval_down_llm"
  let ?q = "''Who wrote Wings of Fire?''"
  let ?s1 = "(initial_state ?q)\<lparr>route := ''pdf''\<rparr>"
  let ?s2 = "?s1\<lparr>retrieved_docs := [],
                  context := ''Error retrieving documents: connection refused'',
                  rerank_scores := []\<rparr>"
  let ?s3 = "?s2\<lparr>generation := ''I do not have enough information.''\<rparr>"
  have llm: "llm_invoke ?env = eval_down_llm" "build_chain ?env = (\<lambda>system. None)"
    by (simp_all add: offline_def)
  have 1: "evaluation_node ?env answered
      = Inr (answered\<lparr>evaluation := JObj [(''error'', JStr ''Request timed out.'')]\<rparr>)"
    using evaluation_swallows_try_block_faults [of ?env answered]
    by (simp add: llm eval_down_llm_replies)
  have router: "router_node ?env (initial_state ?q) = Inr ?s1"
    by (simp add: router_node_def chain_call_def llm eval_down_llm_replies normalise_pdf)
  have branch: "branch_node ?env ?s1 = Inr ?s2"
    by (simp add: branch_node_def rag_retrieval_node_def rag_retrieval_try_def offline_def)
  have gen: "generation_node ?env ?s2 = Inr ?s3"
    by (simp add: generation_node_def generation_prompt_def chain_call_def llm
          eval_down_llm_replies)
  have s3: "?s3 = (initial_state ?q)
                       \<lparr>route := ''pdf'',
                        context := ''Error retrieving documents: connection refused'',
                        generation := ''I do not have enough information.''\<rparr>"
    by (simp add: initial_state_def)
  have 2: "\<exists>ev. process_query_async ?env ?q = Inr (?s3\<lparr>evaluation := ev\<rparr>)"
    using evaluation_swallows_try_block_faults [of ?env ?s3] router branch gen
    by (simp add: llm)
  from 1 2 show ?thesis
    unfolding s3 by simp
qed

lemma steady_llm_replies:
  "steady_llm router_system h = Inr ''pdf''"
  "steady_llm pdf_system h = Inr ''I do not have enough information.''"
  "steady_llm eval_system h = Inr three_scores_text"
  by (simp_all add: steady_llm_def router_system_def pdf_system_def eval_system_def)

lemma eval_chain_down_calls:
  "build_chain eval_chain_down eval_system = Some (Raised ''The api_key client option must be set'')"
  "build_chain eval_chain_down router_system = None"
  "build_chain eval_chain_down pdf_system = None"
  "llm_invoke eval_chain_down = steady_llm"
  "get_vector_store eval_chain_down = Some (Raised ''connection refused'')"
  by (simp_all add: eval_chain_down_def mock_json_def router_system_def pdf_system_def
        eval_system_def)

lemma eval_chain_down_run:
  "router_node eval_chain_down (initial_state q) = Inr ((initial_state q)\<lparr>route := ''pdf''\<rparr>)"
  "branch_node eval_chain_down ((initial_state q)\<lparr>route := ''pdf''\<rparr>)
     = Inr ((initial_state q)\<lparr>route := ''pdf'',
              context := ''Error retrieving documents: connection refused''\<rparr>)"
  "generation_node eval_chain_down
       ((initial_state q)\<lparr>route := ''pdf'',
              context := ''Error retrieving documents: connection refused''\<rparr>)
     = Inr ((initial_state q)\<lparr>route := ''pdf'',
              context := ''Error retrieving documents: connection refused'',
              generation := ''I do not have enough information.''\<rparr>)"
  by (simp_all add: router_node_def branch_node_def rag_retrieval_node_def
        rag_retrieval_try_def generation_node_def generation_prompt_def chain_call_def
        eval_chain_down_calls steady_llm_replies normalise_pdf initial_state_def)

lemma eval_chain_down_raises:
  "process_query_async eval_chain_down q = Inl (Raised ''The api_key client option must be set'')"
proof -
  have "evaluation_node eval_chain_down s = Inl (Raised ''The api_key client option must be set'')"
    for s
    by (simp add: evaluation_node_def eval_chain_down_calls)
  then show ?thesis
    using run_ends_with_evaluation [OF eval_chain_down_run] by simp
qed

text \<open>
  The claim as stated fails: when building the evaluation chain raises, the stage
  raises, and a run that reached it through a router, a document stage and a generation
  stage that all returned raises too.
\<close>

theorem evaluation_chain_failure_counterexample:
  "evaluation_node eval_chain_down answered
     = Inl (Raised ''The api_key client option must be set'')
   \<and> generation_node eval_chain_down
       ((initial_state ''Who wrote Wings of Fire?'')\<lparr>route := ''pdf'',
              context := ''Error retrieving documents: connection refused''\<rparr>)
     = Inr ((initial_state ''Who wrote Wings of Fire?'')\<lparr>route := ''pdf'',
              context := ''Error retrieving documents: connection refused'',
              generation := ''I do not have enough information.''\<rparr>)
   \<and> process_query_async eval_chain_down ''Who wrote Wings of Fire?''
     = Inl (Raised ''The api_key client option must be set'')"
  by (simp add: eval_chain_down_run eval_chain_down_raises evaluation_node_def
        eval_chain_down_calls)

section \<open>Failures that end a run\<close>

lemma router_node_raises:
  "router_node env state = Inl e \<longleftrightarrow> chain_call env router_system (question state) = Inl e"
  by (cases "chain_call env router_system (question state)") (simp_all add: router_node_def)

lemma router_node_question:
  "router_node env state = Inr s1 \<Longrightarrow> question s1 = question state"
  by (cases "chain_call env router_system (question state)") (auto simp add: router_node_def)

lemma weather_node_raises:
  "weather_node env state = Inl e \<longleftrightarrow> chain_call env location_system (question state) = Inl e"
  by (cases "chain_call env location_system (question state)")
     (auto simp add: weather_node_def Let_def split: sum.splits)

lemma rag_retrieval_node_returns:
  "\<exists>s. rag_retrieval_node env state = Inr s"
  by (auto simp add: rag_retrieval_node_def split: sum.splits)

lemma generation_node_raises:
  "generation_node env state = Inl e \<longleftrightarrow>
     chain_call env (fst (generation_prompt state)) (snd (generation_prompt state)) = Inl e"
  by (cases "chain_call env (fst (generation_prompt state)) (snd (generation_prompt state))")
     (simp_all add: generation_node_def)

lemma evaluation_node_raises:
  "evaluation_node env state = Inl e \<longleftrightarrow> build_chain env eval_system = Some e"
  by (cases "build_chain env eval_system"; cases "evaluation_try env state")
     (simp_all add: evaluation_node_def)

lemma branch_node_raises:
  "branch_node env s1 = Inl e \<longleftrightarrow>
     route s1 = ''weather'' \<and> chain_call env location_system (question s1) = Inl e"
  using rag_retrieval_node_returns [of env s1]
  by (auto simp add: branch_node_def weather_node_raises)

text \<open>
  C8, as the code has it. A run raises \<open>e\<close> exactly when one of four steps raises \<open>e\<close>:
  the router's chain, the weather stage's chain that extracts the city (on the weather
  route), the generation stage's chain, or the construction of the evaluation stage's
  chain. These failures are not recovered and leave the run. Fetch failures, retrieval
  failures and evaluation parse failures are turned into state fields: once the city
  is extracted the weather stage returns whatever the fetch does, the document stage
  always returns, and a reply of the evaluation chain that does not parse gives the
  error map.
\<close>

theorem hard_errors_of_a_run:
  "(process_query_async env q = Inl e \<longleftrightarrow>
      chain_call env router_system q = Inl e
    \<or> (\<exists>s1. router_node env (initial_state q) = Inr s1 \<and> route s1 = ''weather''
           \<and> chain_call env location_system q = Inl e)
    \<or> (\<exists>s1 s2. router_node env (initial_state q) = Inr s1 \<and> branch_node env s1 = Inr s2
           \<and> chain_call env (fst (generation_prompt s2)) (snd (generation_prompt s2)) = Inl e)
    \<or> (\<exists>s1 s2 s3. router_node env (initial_state q) = Inr s1 \<and> branch_node env s1 = Inr s2
           \<and> generation_node env s2 = Inr s3 \<and> build_chain env eval_system = Some e))
   \<and> (\<forall>state out. chain_call env location_system (question state) = Inr out \<longrightarrow>
         (\<exists>s. weather_node env state = Inr s))
   \<and> (\<forall>state. \<exists>s. rag_retrieval_node env state = Inr s)
   \<and> (\<forall>state raw e'. chain_call env eval_system (evaluation_human state) = Inr raw
         \<and> json_loads env (clean_eval_result raw) = Inl e' \<longrightarrow>
         evaluation_node env state =
           Inr (state\<lparr>evaluation := JObj [(''error'', JStr (exn_str e'))]\<rparr>))"
proof -
  have q0: "question (initial_state q) = q"
    by (simp add: initial_state_def)
  have run: "process_query_async env q = Inl e \<longleftrightarrow>
      chain_call env router_system q = Inl e
    \<or> (\<exists>s1. router_node env (initial_state q) = Inr s1 \<and> route s1 = ''weather''
           \<and> chain_call env location_system q = Inl e)
    \<or> (\<exists>s1 s2. router_node env (initial_state q) = Inr s1 \<and> branch_node env s1 = Inr s2
           \<and> chain_call env (fst (generation_prompt s2)) (snd (generation_prompt s2)) = Inl e)
    \<or> (\<exists>s1 s2 s3. router_node env (initial_state q) = Inr s1 \<and> branch_node env s1 = Inr s2
           \<and> generation_node env s2 = Inr s3 \<and> build_chain env eval_system = Some e)"
  proof (cases "router_node env (initial_state q)")
    case r: (Inl e')
    then have l: "chain_call env router_system q = Inl e'"
      using router_node_raises [of env "initial_state q" e'] by (simp add: q0)
    have "process_query_async env q = Inl e'"
      by (simp add: process_query_async_def graph_invoke_eq r)
    then show ?thesis
      by (simp add: r l)
  next
    case r: (Inr s1)
    then have q1: "question s1 = q"
      using router_node_question [of env "initial_state q" s1] by (simp add: q0)
    have nr: "chain_call env router_system q \<noteq> Inl e"
      using router_node_raises [of env "initial_state q" e] r by (simp add: q0)
    show ?thesis
    proof (cases "branch_node env s1")
      case b: (Inl e')
      then have l: "route s1 = ''weather'' \<and> chain_call env location_system q = Inl e'"
        using branch_node_raises [of env s1 e'] by (simp add: q1)
      have "process_query_async env q = Inl e'"
        by (simp add: process_query_async_def graph_invoke_eq r b)
      then show ?thesis
        by (simp add: r b l nr)
    next
      case b: (Inr s2)
      have nb: "\<not> (route s1 = ''weather'' \<and> chain_call env location_system q = Inl e)"
        using branch_node_raises [of env s1 e] b by (simp add: q1)
      show ?thesis
      proof (cases "generation_node env s2")
        case g: (Inl e')
        then have l: "chain_call env (fst (generation_prompt s2)) (snd (generation_prompt s2))
            = Inl e'"
          using generation_node_raises [of env s2 e'] by simp
        have "process_query_async env q = Inl e'"
          by (simp add: process_query_async_def graph_invoke_eq r b g)
        then show ?thesis
          using nb by (auto simp add: r b g l nr)
      next
        case g: (Inr s3)
        then have ng: "chain_call env (fst (generation_prompt s2))
            (snd (generation_prompt s2)) \<noteq> Inl e"
          using generation_node_raises [of env s2 e] by simp
        have "process_query_async env q = evaluation_node env s3"
          by (simp add: process_query_async_def graph_invoke_eq r b g)
        then show ?thesis
          using nb by (auto simp add: r b g nr ng evaluation_node_raises)
      qed
    qed
  qed
  have w: "\<forall>state out. chain_call env location_system (question state) = Inr out \<longrightarrow>
      (\<exists>s. weather_node env state = Inr s)"
    by (auto simp add: weather_node_def Let_def split: sum.splits)
  have p: "\<forall>state raw e'. chain_call env eval_system (evaluation_human state) = Inr raw
      \<and> json_loads env (clean_eval_result raw) = Inl e' \<longrightarrow>
      evaluation_node env state =
        Inr (state\<lparr>evaluation := JObj [(''error'', JStr (exn_str e'))]\<rparr>)"
    by (auto simp add: evaluation_node_parsed)
  from run w rag_retrieval_node_returns p show ?thesis
    by blast
qed

lemma location_down_llm_replies:
  "location_down_llm location_system h = Inl (Raised ''Request timed out.'')"
  "location_down_llm router_system h = Inr ''weather''"
  "location_down_llm weather_system = (\<lambda>human. Inr ''It is sunny.'')"
  "location_down_llm pdf_system = (\<lambda>human. Inr ''It is sunny.'')"
  by (simp_all add: location_down_llm_def fun_eq_iff location_system_def router_system_def
        weather_system_def pdf_system_def)

lemma location_down_router:
  "router_node (offline location_down_llm) (initial_state q)
     = Inr ((initial_state q)\<lparr>route := ''weather''\<rparr>)"
  by (simp add: router_node_def chain_call_def offline_def location_down_llm_replies
        normalise_plain)

theorem hard_errors_of_a_run_witness:
  "process_query_async (offline location_down_llm) ''What is the weather in Pune?''
     = Inl (Raised ''Request timed out.'')
   \<and> process_query_async eval_chain_down ''Who wrote Wings of Fire?''
     = Inl (Raised ''The api_key client option must be set'')"
proof -
  have 1: "process_query_async (offline location_down_llm) ''What is the weather in Pune?''
      = Inl (Raised ''Request timed out.'')"
    using hard_errors_of_a_run [of "offline location_down_llm" "''What is the weather in Pune?''"
        "Raised ''Request timed out.''"]
    by (simp add: location_down_router)
       (simp add: offline_def chain_call_def location_down_llm_replies)
  have 2: "process_query_async eval_chain_down ''Who wrote Wings of Fire?''
      = Inl (Raised ''The api_key client option must be set'')"
    using hard_errors_of_a_run [of eval_chain_down "''Who wrote Wings of Fire?''"
        "Raised ''The api_key client option must be set''"]
    by (simp add: eval_chain_down_run eval_chain_down_calls)
  from 1 2 show ?thesis
    by (intro conjI)
qed

text \<open>
  The claim as stated fails. In the first run the router's chain returns, every call the
  generation stage could make returns, and the run raises nevertheless, from the weather
  stage's chain that extracts the city. In the second run the router's chain and the
  generation stage's chain return and the run raises from the construction of the
  evaluation stage's chain.
\<close>

theorem unlisted_hard_errors_counterexample:
  "process_query_async (offline location_down_llm) ''What is the weather in Pune?''
     = Inl (Raised ''Request timed out.'')
   \<and> chain_call (offline location_down_llm) router_system ''What is the weather in Pune?''
       = Inr ''weather''
   \<and> chain_call (offline location_down_llm) weather_system = (\<lambda>human. Inr ''It is sunny.'')
   \<and> chain_call (offline location_down_llm) pdf_system = (\<lambda>human. Inr ''It is sunny.'')
   \<and> process_query_async eval_chain_down ''Who wrote Wings of Fire?''
       = Inl (Raised ''The api_key client option must be set'')
   \<and> chain_call eval_chain_down router_system ''Who wrote Wings of Fire?'' = Inr ''pdf''
   \<and> chain_call eval_chain_down pdf_system
       = (\<lambda>human. Inr ''I do not have enough information.'')"
proof -
  have "branch_node (offline location_down_llm)
          ((initial_state ''What is the weather in Pune?'')\<lparr>route := ''weather''\<rparr>)
        = Inl (Raised ''Request timed out.'')"
    by (simp add: branch_node_def weather_node_def chain_call_def offline_def
          location_down_llm_replies initial_state_def)
  then have "process_query_async (offline location_down_llm) ''What is the weather in Pune?''
      = Inl (Raised ''Request timed out.'')"
    by (simp add: process_query_async_def graph_invoke_eq location_down_router)
  then show ?thesis
    by (simp add: offline_def chain_call_def fun_eq_iff location_down_llm_replies
          eval_chain_down_raises eval_chain_down_calls steady_llm_replies)
qed

section \<open>The batch endpoint\<close>

lemma list_rubric_llm_replies:
  "list_rubric_llm router_system h = Inr ''pdf''"
  "list_rubric_llm pdf_system h = Inr ''I do not have enough information.''"
  "list_rubric_llm eval_system h =
     (if startswith h ''Question: When'' then Inr ''[8, 9, 7]'' else Inr three_scores_text)"
  by (simp_all add: list_rubric_llm_def router_system_def pdf_system_def eval_system_def)

lemma list_rubric_env_calls:
  "llm_invoke list_rubric_env = list_rubric_llm"
  "build_chain list_rubric_env = (\<lambda>system. None)"
  "get_vector_store list_rubric_env = Some (Raised ''connection refused'')"
  "json_loads list_rubric_env three_scores_text = Inr three_scores"
  "json_loads list_rubric_env ''[8, 9, 7]'' = Inr (JArr [JInt 8, JInt 9, JInt 7])"
  by (simp_all add: list_rubric_env_def mock_json_def three_scores_text_def dquoted_def)

lemma clean_list: "clean_eval_result ''[8, 9, 7]'' = ''[8, 9, 7]''"
  by code_simp

lemma list_rubric_run:
  "process_query_async list_rubric_env q =
     evaluation_node list_rubric_env (degraded_run q (JObj []))"
proof -
  have "router_node list_rubric_env (initial_state q)
      = Inr ((initial_state q)\<lparr>route := ''pdf''\<rparr>)"
    by (simp add: router_node_def chain_call_def list_rubric_env_calls list_rubric_llm_replies
          normalise_pdf)
  moreover have "branch_node list_rubric_env ((initial_state q)\<lparr>route := ''pdf''\<rparr>)
      = Inr ((initial_state q)\<lparr>route := ''pdf'', retrieved_docs := [],
               context := ''Error retrieving documents: connection refused'',
               rerank_scores := []\<rparr>)"
    by (simp add: branch_node_def rag_retrieval_node_def rag_retrieval_try_def
          list_rubric_env_calls)
  moreover have "generation_node list_rubric_env
        ((initial_state q)\<lparr>route := ''pdf'', retrieved_docs := [],
               context := ''Error retrieving documents: connection refused'',
               rerank_scores := []\<rparr>)
      = Inr (degraded_run q (JObj []))"
    by (simp add: generation_node_def generation_prompt_def chain_call_def
          list_rubric_env_calls list_rubric_llm_replies degraded_run_def initial_state_def)
  ultimately show ?thesis
    by (rule run_ends_with_evaluation)
qed

lemma list_rubric_runs:
  "process_query_async list_rubric_env ''Who wrote Wings of Fire?''
     = Inr (degraded_run ''Who wrote Wings of Fire?'' three_scores)"
  "process_query_async list_rubric_env ''When was Kalam born?''
     = Inr (degraded_run ''When was Kalam born?'' (JArr [JInt 8, JInt 9, JInt 7]))"
  by (simp_all add: list_rubric_run evaluation_node_def evaluation_try_def evaluation_human_def
        list_rubric_env_calls list_rubric_llm_replies degraded_run_def startswith_def
        clean_examples clean_list)

text \<open>
  C9. A run whose evaluation parses to a value that is not a dictionary ends the whole
  batch: the first question's run returns a state from which a response is built, the
  second question's run returns too, with the list \<open>[8, 9, 7]\<close> as its evaluation, and
  the request raises the validation error of the second response instead of returning
  two results.
\<close>

theorem batch_query_raises_on_list_evaluation:
  "process_query_async list_rubric_env ''Who wrote Wings of Fire?''
     = Inr (degraded_run ''Who wrote Wings of Fire?'' three_scores)
   \<and> process_query_async list_rubric_env ''When was Kalam born?''
     = Inr (degraded_run ''When was Kalam born?'' (JArr [JInt 8, JInt 9, JInt 7]))
   \<and> batch_query list_rubric_env [''Who wrote Wings of Fire?'', ''When was Kalam born?'']
     = Inl (ValidationError [''evaluation''])"
  by (simp add: batch_query_def list_rubric_runs result_response_def degraded_run_def
        three_scores_def)

text \<open>
  When every run that returns leaves a dictionary (or \<open>None\<close>) as weather data and as
  evaluation, the batch returns one response per question, in the order of the
  questions: the error response for a run that raised, the response built from the
  final state otherwise.
\<close>

lemma build_responses_valid:
  assumes "\<forall>(q, r) \<in> set items. \<forall>st. r = Inr st \<longrightarrow> (\<exists>resp. result_response q st = Inr resp)"
  shows "\<exists>rs. build_responses items acc = Inr (acc @ rs) \<and> length rs = length items
           \<and> (\<forall>i < length items.
                (\<forall>e. snd (items ! i) = Inl e \<longrightarrow> rs ! i = error_response (fst (items ! i)) e)
              \<and> (\<forall>st. snd (items ! i) = Inr st \<longrightarrow>
                    result_response (fst (items ! i)) st = Inr (rs ! i)))"
  using assms
proof (induction items arbitrary: acc)
  case Nil
  then show ?case by simp
next
  case (Cons item items)
  obtain q r where item: "item = (q, r)"
    by (cases item)
  from Cons.prems have rest:
    "\<forall>(q, r) \<in> set items. \<forall>st. r = Inr st \<longrightarrow> (\<exists>resp. result_response q st = Inr resp)"
    by simp
  show ?case
  proof (cases r)
    case (Inl e)
    from Cons.IH [OF rest, of "acc @ [error_response q e]"] obtain rs where
      rs: "build_responses items (acc @ [error_response q e]) = Inr ((acc @ [error_response q e]) @ rs)"
        "length rs = length items"
        "\<forall>i < length items.
            (\<forall>e. snd (items ! i) = Inl e \<longrightarrow> rs ! i = error_response (fst (items ! i)) e)
          \<and> (\<forall>st. snd (items ! i) = Inr st \<longrightarrow>
                result_response (fst (items ! i)) st = Inr (rs ! i))"
      by blast
    have "\<forall>i < length (item # items).
            (\<forall>e'. snd ((item # items) ! i) = Inl e' \<longrightarrow>
               (error_response q e # rs) ! i = error_response (fst ((item # items) ! i)) e')
          \<and> (\<forall>st. snd ((item # items) ! i) = Inr st \<longrightarrow>
                result_response (fst ((item # items) ! i)) st = Inr ((error_response q e # rs) ! i))"
    proof (intro allI impI)
      fix i assume "i < length (item # items)"
      then show "(\<forall>e'. snd ((item # items) ! i) = Inl e' \<longrightarrow>
               (error_response q e # rs) ! i = error_response (fst ((item # items) ! i)) e')
          \<and> (\<forall>st. snd ((item # items) ! i) = Inr st \<longrightarrow>
                result_response (fst ((item # items) ! i)) st = Inr ((error_response q e # rs) ! i))"
        using rs(3) by (cases i) (simp_all add: item Inl)
    qed
    with rs(1,2) show ?thesis
      by (intro exI [of _ "error_response q e # rs"]) (simp add: item Inl)
  next
    case (Inr st)
    with Cons.prems item obtain resp where resp: "result_response q st = Inr resp"
      by auto
    from Cons.IH [OF rest, of "acc @ [resp]"] obtain rs where
      rs: "build_responses items (acc @ [resp]) = Inr ((acc @ [resp]) @ rs)"
        "length rs = length items"
        "\<forall>i < length items.
            (\<forall>e. snd (items ! i) = Inl e \<longrightarrow> rs ! i = error_response (fst (items ! i)) e)
          \<and> (\<forall>st. snd (items ! i) = Inr st \<longrightarrow>
                result_response (fst (items ! i)) st = Inr (rs ! i))"
      by blast
    have "\<forall>i < length (item # items).
            (\<forall>e'. snd ((item # items) ! i) = Inl e' \<longrightarrow>
               (resp # rs) ! i = error_response (fst ((item # items) ! i)) e')
          \<and> (\<forall>st'. snd ((item # items) ! i) = Inr st' \<longrightarrow>
                result_response (fst ((item # items) ! i)) st' = Inr ((resp # rs) ! i))"
    proof (intro allI impI)
      fix i assume "i < length (item # items)"
      then show "(\<forall>e'. snd ((item # items) ! i) = Inl e' \<longrightarrow>
               (resp # rs) ! i = error_response (fst ((item # items) ! i)) e')
          \<and> (\<forall>st'. snd ((item # items) ! i) = Inr st' \<longrightarrow>
                result_response (fst ((item # items) ! i)) st' = Inr ((resp # rs) ! i))"
        using rs(3) resp by (cases i) (auto simp add: item Inr)
    qed
    with rs(1,2) show ?thesis
      by (intro exI [of _ "resp # rs"]) (simp add: item Inr resp)
  qed
qed

lemma batch_query_isolates_failed_runs:
  assumes "\<forall>q \<in> set questions. \<forall>st. process_query_async env q = Inr st \<longrightarrow>
             (\<exists>resp. result_response q st = Inr resp)"
  shows "\<exists>responses. batch_query env questions = Inr responses
           \<and> length responses = length questions
           \<and> (\<forall>i < length questions.
                (\<forall>e. process_query_async env (questions ! i) = Inl e \<longrightarrow>
                   responses ! i = error_response (questions ! i) e)
              \<and> (\<forall>st. process_query_async env (questions ! i) = Inr st \<longrightarrow>
                    result_response (questions ! i) st = Inr (responses ! i)))"
proof -
  let ?items = "zip questions (map (process_query_async env) questions)"
  have "\<forall>(q, r) \<in> set ?items. \<forall>st. r = Inr st \<longrightarrow> (\<exists>resp. result_response q st = Inr resp)"
    using assms by (auto simp add: set_zip)
  from build_responses_valid [OF this, of "[]"] show ?thesis
    by (simp add: batch_query_def)
qed

end
